theory Spec2Isabelle
  imports Main
begin

section \<open>The download coordinator (chrome/browser/download/download_manager.cc)\<close>

text \<open>
  A shallow embedding of \<^verbatim>\<open>DownloadManager\<close>. The manager runs on one control thread
  (every method asserts \<^verbatim>\<open>BrowserThread::CurrentlyOn(BrowserThread::UI)\<close>), so each method
  is a function from the manager's state to its next state. A method that can abort
  (a failed \<^verbatim>\<open>CHECK\<close>, a failed \<^verbatim>\<open>DCHECK\<close> in a build that has them, a dereference of a
  pointer that is null or freed) returns \<open>Inl\<close> of the reason.

  Everything the manager hands to a collaborator (observers, the history journal, the
  FILE thread, the network request, the UI delegate) is appended to the \<open>effects\<close> log.

  Embedded are the methods that create, commit, complete, cancel, interrupt and remove
  Records, the callbacks of the path resolution and of the journal, \<^verbatim>\<open>Init\<close> and
  \<^verbatim>\<open>Shutdown\<close>, and the two consistency checks. The queries (\<^verbatim>\<open>GetTemporaryDownloads\<close>,
  \<^verbatim>\<open>SearchDownloads\<close> and the like), the observer registration, \<^verbatim>\<open>DownloadUrl\<close>,
  \<^verbatim>\<open>OnDownloadRenamedToFinalName\<close> and the work on the FILE thread
  (\<^verbatim>\<open>CheckIfSuggestedPathExists\<close>) are left out: none of them writes an index.
\<close>

subsection \<open>Containers\<close>

text \<open>
  \<^verbatim>\<open>DownloadItem*\<close>: an address; \<^verbatim>\<open>NULL\<close> is address 0, which is never allocated.
\<close>

type_synonym ptr = nat

definition NULL :: ptr where
  "NULL = 0"

text \<open>
  \<^verbatim>\<open>std::map<K, DownloadItem*>\<close> (\<^verbatim>\<open>DownloadMap\<close>): an association list kept in key order,
  which is the order \<^verbatim>\<open>begin()\<close> .. \<^verbatim>\<open>end()\<close> walks.
\<close>

type_synonym DownloadMap = "(int \<times> ptr) list"

definition map_find :: "DownloadMap \<Rightarrow> int \<Rightarrow> ptr option" where
  "map_find mp k = map_of mp k"

definition ContainsKey :: "DownloadMap \<Rightarrow> int \<Rightarrow> bool" where
  "ContainsKey mp k = (map_of mp k \<noteq> None)"

text \<open>\<^verbatim>\<open>mp[k] = v\<close>: overwrite the entry of \<open>k\<close>, or insert one at its place in key order.\<close>

fun map_set :: "int \<Rightarrow> ptr \<Rightarrow> DownloadMap \<Rightarrow> DownloadMap" where
  "map_set k v [] = [(k, v)]"
| "map_set k v ((k', v') # mp) =
     (if k < k' then (k, v) # (k', v') # mp
      else if k = k' then (k, v) # mp
      else (k', v') # map_set k v mp)"

text \<open>\<^verbatim>\<open>mp.erase(k)\<close>.\<close>

definition map_erase :: "int \<Rightarrow> DownloadMap \<Rightarrow> DownloadMap" where
  "map_erase k mp = filter (\<lambda>kv. fst kv \<noteq> k) mp"

text \<open>
  Reading \<^verbatim>\<open>mp[k]\<close>: \<^verbatim>\<open>std::map::operator[]\<close> inserts a value-initialised entry (a null
  pointer) when the key is absent, and returns the entry's value.
\<close>

definition map_index :: "DownloadMap \<Rightarrow> int \<Rightarrow> ptr \<times> DownloadMap" where
  "map_index mp k =
     (case map_of mp k of
        Some v \<Rightarrow> (v, mp)
      | None \<Rightarrow> (NULL, map_set k NULL mp))"

text \<open>\<^verbatim>\<open>std::set<DownloadItem*>\<close> (\<^verbatim>\<open>DownloadSet\<close>): a list in ascending address order.\<close>

type_synonym DownloadSet = "ptr list"

fun set_insert :: "ptr \<Rightarrow> DownloadSet \<Rightarrow> DownloadSet" where
  "set_insert p [] = [p]"
| "set_insert p (q # s) =
     (if p < q then p # q # s
      else if p = q then q # s
      else q # set_insert p s)"

definition set_erase :: "ptr \<Rightarrow> DownloadSet \<Rightarrow> DownloadSet" where
  "set_erase p s = filter (\<lambda>q. q \<noteq> p) s"

subsection \<open>The Record (DownloadItem)\<close>

type_synonym FilePath = string

datatype DownloadState = IN_PROGRESS | COMPLETE | CANCELLED | INTERRUPTED | REMOVING

datatype SafetyState = SAFE | DANGEROUS | VALIDATED

text \<open>\<^verbatim>\<open>DownloadStateInfo\<close>, the fields the manager reads and writes.\<close>

record DownloadStateInfo =
  target_name :: FilePath
  path_uniquifier :: int
  has_user_gesture :: bool
  prompt_user_for_save_location :: bool
  is_dangerous_file :: bool
  is_dangerous_url :: bool
  is_extension_install :: bool
  force_file_name :: FilePath
  suggested_path :: FilePath

text \<open>
  Modelled from the spec: \<^verbatim>\<open>DownloadItem\<close> (download_item.h/.cc) is not among the sources.
  The record holds the Download Record of the spec's data model, under the names of the
  accessors the manager calls: \<open>download_id\<close> is \<^verbatim>\<open>id()\<close>, the transient id;
  \<open>db_handle\<close> the durable handle; \<open>state\<close> the life state; \<open>full_path\<close> the path that
  \<^verbatim>\<open>full_path()\<close> returns.
\<close>

record DownloadItem =
  download_id :: int
  db_handle :: int
  state :: DownloadState
  safety_state :: SafetyState
  all_data_saved :: bool
  full_path :: FilePath
  start_time :: int
  received_bytes :: int
  total_bytes :: int
  last_os_error :: int
  state_info :: DownloadStateInfo
  file_externally_removed :: bool
  is_temporary :: bool
  is_otr :: bool
  mime_type :: string
  url :: string
  referrer_url :: string

subsection \<open>Collaborators and effects\<close>

datatype DeleteReason = DELETE_DUE_TO_BROWSER_SHUTDOWN | DELETE_DUE_TO_USER_DISCARD

datatype file_task =
    OnDownloadManagerShutdown
  | CheckIfSuggestedPathExists int DownloadStateInfo FilePath
  | RenameInProgressDownloadFile int FilePath
  | CompleteDownload int
  | CancelDownload int
  | DeleteDownloadedFile FilePath
  | CheckForFileRemovalOnFileThread int FilePath

datatype item_call =
    Call_Delete DeleteReason
  | Call_Cancel bool
  | Call_OnPathDetermined FilePath
  | Call_Rename FilePath
  | Call_Update int
  | Call_OnAllDataSaved int
  | Call_Interrupted int int
  | Call_OnDownloadCompleting
  | Call_MarkUrlDangerous
  | Call_SetFileCheckResults DownloadStateInfo
  | Call_set_db_handle int
  | Call_UpdateObservers

datatype effect =
    ModelChanged
  | ManagerGoingDown
  | SelectFileDialogDisplayed int
  | StatusUpdate
  | HistoryLoad
  | HistoryUpdateEntry ptr
  | HistoryAddEntry ptr
  | HistoryRemoveEntry ptr
  | HistoryRemoveEntriesBetween int int
  | HistoryCheckVisitedReferrerBefore int string
  | PostFileTask file_task
  | CancelRequest int
  | ChooseDownloadPath int FilePath
  | OnStartDownload ptr
  | CheckDownloadUrl int
  | CheckDownloadHash int string
  | ItemCall ptr item_call

text \<open>\<^verbatim>\<open>DownloadPrefs\<close>, read through \<^verbatim>\<open>download_prefs_\<close>.\<close>

record DownloadPrefs =
  PromptForDownload :: bool
  IsDownloadPathManaged :: bool
  download_path :: FilePath
  IsAutoOpenEnabledForExtension :: "string \<Rightarrow> bool"

text \<open>
  \<^verbatim>\<open>DownloadHistory\<close>, the journal adapter behind \<^verbatim>\<open>download_history_\<close>: the manager only
  needs to know how many fake handles it has issued.
\<close>

record DownloadHistory =
  fake_handles_issued :: nat

text \<open>
  \<^verbatim>\<open>Profile\<close>: whether it is off the record, whether it has an \<^verbatim>\<open>ExtensionService\<close>, and
  what that service's \<^verbatim>\<open>IsDownloadFromGallery\<close> answers for a URL and a referrer.
\<close>

record Profile =
  IsOffTheRecord :: bool
  has_extension_service :: bool
  IsDownloadFromGallery :: "string \<Rightarrow> string \<Rightarrow> bool"

text \<open>\<^verbatim>\<open>DownloadCreateInfo\<close>, what the network layer reports of a new download.\<close>

record DownloadCreateInfo =
  ci_download_id :: int
  ci_url :: string
  ci_referrer_url :: string
  ci_mime_type :: string
  ci_total_bytes :: int
  ci_start_time :: int
  ci_state_info :: DownloadStateInfo

text \<open>\<^verbatim>\<open>DownloadHistoryInfo\<close>, one entry of the journal.\<close>

record DownloadHistoryInfo =
  hi_db_handle :: int
  hi_url :: string
  hi_referrer_url :: string
  hi_start_time :: int
  hi_received_bytes :: int
  hi_total_bytes :: int
  hi_path :: FilePath
  hi_state :: DownloadState

text \<open>
  What the translation unit takes from elsewhere: whether the build has \<^verbatim>\<open>DCHECK\<close>s and
  the \<^verbatim>\<open>!defined(NDEBUG)\<close> members (\<open>debug_build\<close>), whether it has safe browsing, the
  sentinel \<^verbatim>\<open>DownloadHistory::kUninitializedHandle\<close>, the \<open>n\<close>-th value that
  \<^verbatim>\<open>DownloadHistory::GetNextFakeDbHandle\<close> returns, \<^verbatim>\<open>net::ERR_CONNECTION_CLOSED\<close>, and the pure
  helpers on paths and requests. \<open>replayed_id\<close> is the transient id a Record replayed from
  the journal gets.
\<close>

datatype DownloadDangerLevel = NotDangerous | AllowOnUserGesture | Dangerous

record build_env =
  debug_build :: bool
  ENABLE_SAFE_BROWSING :: bool
  kUninitializedHandle :: int
  FakeDbHandle :: "nat \<Rightarrow> int"
  ERR_CONNECTION_CLOSED :: int
  GetCrDownloadPath :: "FilePath \<Rightarrow> FilePath"
  DirName :: "FilePath \<Rightarrow> FilePath"
  Append :: "FilePath \<Rightarrow> FilePath \<Rightarrow> FilePath"
  Extension :: "FilePath \<Rightarrow> string"
  Extension_IsExtension :: "FilePath \<Rightarrow> bool"
  IsURLUserScript :: "string \<Rightarrow> string \<Rightarrow> bool"
  Extension_kMimeType :: string
  GenerateFileNameFromRequest :: "DownloadItem \<Rightarrow> FilePath"
  GetFileDangerLevel :: "FilePath \<Rightarrow> DownloadDangerLevel"
  BaseName :: "FilePath \<Rightarrow> FilePath"
  GetTargetFilePath :: "DownloadItem \<Rightarrow> FilePath"
  replayed_id :: int

subsection \<open>The manager's state\<close>

text \<open>
  The members of \<^verbatim>\<open>DownloadManager\<close> (a trailing underscore is not a name here, so
  \<^verbatim>\<open>downloads_\<close> is \<open>downloads\<close>), the heap of Records (\<open>items\<close>, with \<open>next_item\<close> the
  address \<^verbatim>\<open>new\<close> returns next) and the log of effects, oldest first.
\<close>

record DownloadManager =
  shutdown_needed :: bool
  profile :: "Profile option"
  file_manager :: bool
  status_updater :: bool
  download_history :: "DownloadHistory option"
  download_prefs :: "DownloadPrefs option"
  last_download_path :: FilePath
  downloads :: DownloadSet
  history_downloads :: DownloadMap
  in_progress :: DownloadMap
  active_downloads :: DownloadMap
  save_page_as_downloads :: DownloadSet
  items :: "ptr \<Rightarrow> DownloadItem option"
  next_item :: ptr
  effects :: "effect list"

datatype crash = DCHECK_failed | CHECK_failed | bad_pointer | invalid_iterator

definition emit :: "effect \<Rightarrow> DownloadManager \<Rightarrow> DownloadManager" where
  "emit e m = m\<lparr>effects := effects m @ [e]\<rparr>"

text \<open>\<^verbatim>\<open>DCHECK(c)\<close> aborts in a debug build when \<open>c\<close> fails; \<^verbatim>\<open>CHECK(c)\<close> in every build.\<close>

definition DCHECK :: "build_env \<Rightarrow> bool \<Rightarrow> crash + 'a \<Rightarrow> crash + 'a" where
  "DCHECK E c k = (if debug_build E \<and> \<not> c then Inl DCHECK_failed else k)"

definition CHECK :: "bool \<Rightarrow> crash + 'a \<Rightarrow> crash + 'a" where
  "CHECK c k = (if c then k else Inl CHECK_failed)"

definition and_then :: "crash + 'a \<Rightarrow> ('a \<Rightarrow> crash + 'b) \<Rightarrow> crash + 'b" where
  "and_then r k = (case r of Inl e \<Rightarrow> Inl e | Inr x \<Rightarrow> k x)"

text \<open>\<^verbatim>\<open>download->...\<close>: reading through a pointer that is null or freed aborts.\<close>

definition deref :: "DownloadManager \<Rightarrow> ptr \<Rightarrow> (DownloadItem \<Rightarrow> crash + 'a) \<Rightarrow> crash + 'a" where
  "deref m p k = (case items m p of None \<Rightarrow> Inl bad_pointer | Some d \<Rightarrow> k d)"

definition set_item :: "ptr \<Rightarrow> DownloadItem \<Rightarrow> DownloadManager \<Rightarrow> DownloadManager" where
  "set_item p d m = m\<lparr>items := (items m)(p \<mapsto> d)\<rparr>"

text \<open>\<^verbatim>\<open>UpdateAppIcon\<close>: \<^verbatim>\<open>if (status_updater_) status_updater_->Update();\<close>\<close>

definition UpdateAppIcon :: "DownloadManager \<Rightarrow> DownloadManager" where
  "UpdateAppIcon m = (if status_updater m then emit StatusUpdate m else m)"

text \<open>
  \<^verbatim>\<open>download_history_->f(...)\<close>: a call through the scoped pointer, which is null before
  \<^verbatim>\<open>Init\<close> and after \<^verbatim>\<open>Shutdown\<close>.
\<close>

definition history_call :: "effect \<Rightarrow> DownloadManager \<Rightarrow> crash + DownloadManager" where
  "history_call e m =
     (case download_history m of None \<Rightarrow> Inl bad_pointer | Some h \<Rightarrow> Inr (emit e m))"

subsection \<open>The Record's methods\<close>

text \<open>
  Modelled from the spec: the methods of \<^verbatim>\<open>DownloadItem\<close> are not among the sources. Each
  mutator the manager calls is recorded in the log and changes the fields the spec's data
  model names for it.
\<close>

definition IsPartialDownload :: "DownloadItem \<Rightarrow> bool" where
  "IsPartialDownload d = (state d = IN_PROGRESS)"

definition IsInProgress :: "DownloadItem \<Rightarrow> bool" where
  "IsInProgress d = (state d = IN_PROGRESS)"

definition IsComplete :: "DownloadItem \<Rightarrow> bool" where
  "IsComplete d = (state d = COMPLETE)"

definition IsCancelled :: "DownloadItem \<Rightarrow> bool" where
  "IsCancelled d = (state d = CANCELLED)"

definition IsInterrupted :: "DownloadItem \<Rightarrow> bool" where
  "IsInterrupted d = (state d = INTERRUPTED)"

definition IsDangerous :: "DownloadItem \<Rightarrow> bool" where
  "IsDangerous d = (safety_state d = DANGEROUS)"

definition item_call ::
    "ptr \<Rightarrow> item_call \<Rightarrow> (DownloadItem \<Rightarrow> DownloadItem) \<Rightarrow> DownloadManager
      \<Rightarrow> crash + DownloadManager" where
  "item_call p c f m = deref m p (\<lambda>d. Inr (emit (ItemCall p c) (set_item p (f d) m)))"

text \<open>
  Modelled from the spec: "Coordinator commits the chosen path, renames the in-progress
  file". \<^verbatim>\<open>OnPathDetermined\<close> stores the chosen path, and \<^verbatim>\<open>Rename\<close> stores the new name, in
  the path \<^verbatim>\<open>full_path()\<close> reads: the source notes that \<^verbatim>\<open>Rename(download->full_path())\<close> "will
  be a no-op for dangerous files, as we're renaming it to the same name".
\<close>

definition item_OnPathDetermined :: "ptr \<Rightarrow> FilePath \<Rightarrow> DownloadManager \<Rightarrow> crash + DownloadManager" where
  "item_OnPathDetermined p path = item_call p (Call_OnPathDetermined path) (\<lambda>d. d\<lparr>full_path := path\<rparr>)"

definition item_Rename :: "ptr \<Rightarrow> FilePath \<Rightarrow> DownloadManager \<Rightarrow> crash + DownloadManager" where
  "item_Rename p path = item_call p (Call_Rename path) (\<lambda>d. d\<lparr>full_path := path\<rparr>)"

definition item_Update :: "ptr \<Rightarrow> int \<Rightarrow> DownloadManager \<Rightarrow> crash + DownloadManager" where
  "item_Update p size' = item_call p (Call_Update size') (\<lambda>d. d\<lparr>received_bytes := size'\<rparr>)"

definition item_OnAllDataSaved :: "ptr \<Rightarrow> int \<Rightarrow> DownloadManager \<Rightarrow> crash + DownloadManager" where
  "item_OnAllDataSaved p size' =
     item_call p (Call_OnAllDataSaved size') (\<lambda>d. d\<lparr>all_data_saved := True, received_bytes := size'\<rparr>)"

definition item_Interrupted ::
    "ptr \<Rightarrow> int \<Rightarrow> int \<Rightarrow> DownloadManager \<Rightarrow> crash + DownloadManager" where
  "item_Interrupted p size' os_error =
     item_call p (Call_Interrupted size' os_error)
       (\<lambda>d. d\<lparr>state := INTERRUPTED, received_bytes := size', last_os_error := os_error\<rparr>)"

definition item_MarkUrlDangerous :: "ptr \<Rightarrow> DownloadManager \<Rightarrow> crash + DownloadManager" where
  "item_MarkUrlDangerous p =
     item_call p Call_MarkUrlDangerous
       (\<lambda>d. d\<lparr>safety_state := DANGEROUS, state_info := (state_info d)\<lparr>is_dangerous_url := True\<rparr>\<rparr>)"

definition item_SetFileCheckResults ::
    "ptr \<Rightarrow> DownloadStateInfo \<Rightarrow> DownloadManager \<Rightarrow> crash + DownloadManager" where
  "item_SetFileCheckResults p st =
     item_call p (Call_SetFileCheckResults st)
       (\<lambda>d. d\<lparr>state_info := st,
              safety_state := (if is_dangerous_file st \<or> is_dangerous_url st then DANGEROUS
                               else safety_state d)\<rparr>)"

definition item_set_db_handle :: "ptr \<Rightarrow> int \<Rightarrow> DownloadManager \<Rightarrow> crash + DownloadManager" where
  "item_set_db_handle p h = item_call p (Call_set_db_handle h) (\<lambda>d. d\<lparr>db_handle := h\<rparr>)"

definition item_UpdateObservers :: "ptr \<Rightarrow> DownloadManager \<Rightarrow> crash + DownloadManager" where
  "item_UpdateObservers p = item_call p Call_UpdateObservers (\<lambda>d. d)"

text \<open>
  Modelled from the spec: \<^verbatim>\<open>DownloadItem::OnDownloadCompleting\<close>. "On eligibility ...
  performs final rename, and commits to journal": the rename runs off the control thread,
  so on the control thread the call is only recorded.
\<close>

definition item_OnDownloadCompleting :: "ptr \<Rightarrow> DownloadManager \<Rightarrow> crash + DownloadManager" where
  "item_OnDownloadCompleting p = item_call p Call_OnDownloadCompleting (\<lambda>d. d)"

text \<open>
  Modelled from the spec: the constructors of \<^verbatim>\<open>DownloadItem\<close>. A Record made from a
  report of the network layer is IN_PROGRESS, with no durable handle and an empty path; a
  Record replayed from the journal takes the entry's fields.
\<close>

definition DownloadItem_new :: "build_env \<Rightarrow> DownloadCreateInfo \<Rightarrow> bool \<Rightarrow> DownloadItem" where
  "DownloadItem_new E info otr =
     \<lparr>download_id = ci_download_id info, db_handle = kUninitializedHandle E,
      state = IN_PROGRESS, safety_state = SAFE, all_data_saved = False, full_path = [],
      start_time = ci_start_time info, received_bytes = 0,
      total_bytes = ci_total_bytes info, last_os_error = 0,
      state_info = ci_state_info info, file_externally_removed = False,
      is_temporary = False, is_otr = otr, mime_type = ci_mime_type info,
      url = ci_url info, referrer_url = ci_referrer_url info\<rparr>"

definition DownloadItem_from_history :: "build_env \<Rightarrow> DownloadHistoryInfo \<Rightarrow> DownloadItem" where
  "DownloadItem_from_history E info =
     \<lparr>download_id = replayed_id E, db_handle = hi_db_handle info,
      state = hi_state info, safety_state = SAFE, all_data_saved = False,
      full_path = hi_path info, start_time = hi_start_time info,
      received_bytes = hi_received_bytes info, total_bytes = hi_total_bytes info,
      last_os_error = 0,
      state_info = \<lparr>target_name = [], path_uniquifier = 0, has_user_gesture = False,
        prompt_user_for_save_location = False, is_dangerous_file = False,
        is_dangerous_url = False, is_extension_install = False, force_file_name = [],
        suggested_path = []\<rparr>,
      file_externally_removed = False, is_temporary = False, is_otr = False,
      mime_type = [], url = hi_url info, referrer_url = hi_referrer_url info\<rparr>"

text \<open>\<^verbatim>\<open>new DownloadItem(...)\<close> and \<^verbatim>\<open>delete download\<close>.\<close>

definition new_item :: "DownloadItem \<Rightarrow> DownloadManager \<Rightarrow> ptr \<times> DownloadManager" where
  "new_item d m =
     (next_item m, m\<lparr>items := (items m)(next_item m \<mapsto> d), next_item := Suc (next_item m)\<rparr>)"

definition delete_item :: "ptr \<Rightarrow> DownloadManager \<Rightarrow> crash + DownloadManager" where
  "delete_item p m =
     (if p = NULL then Inr m
      else deref m p (\<lambda>d. Inr (m\<lparr>items := (items m)(p := None)\<rparr>)))"

subsection \<open>The manager's methods\<close>

definition NotifyModelChanged :: "DownloadManager \<Rightarrow> DownloadManager" where
  "NotifyModelChanged m = emit ModelChanged m"

text \<open>
  \<^verbatim>\<open>DownloadManager::AssertContainersConsistent\<close>: its body is compiled in a debug build
  only, where every check is a \<^verbatim>\<open>DCHECK\<close>.
\<close>

definition AssertContainersConsistent ::
    "build_env \<Rightarrow> DownloadManager \<Rightarrow> crash + 'a \<Rightarrow> crash + 'a" where
  "AssertContainersConsistent E m k =
     DCHECK E (list_all (\<lambda>p. p \<in> set (downloads m)) (map snd (active_downloads m)))
    (DCHECK E (list_all (\<lambda>p. p \<in> set (downloads m)) (map snd (history_downloads m)))
    (DCHECK E (list_all (\<lambda>p. p \<in> set (downloads m)) (save_page_as_downloads m))
    (DCHECK E (list_all (\<lambda>p. p \<in> set (map snd (active_downloads m))
                            \<or> p \<in> set (map snd (history_downloads m))
                            \<or> p \<in> set (save_page_as_downloads m)) (downloads m))
      k)))"

text \<open>\<^verbatim>\<open>DownloadManager::AssertQueueStateConsistent\<close>.\<close>

definition AssertQueueStateConsistent ::
    "build_env \<Rightarrow> DownloadManager \<Rightarrow> ptr \<Rightarrow> crash + 'a \<Rightarrow> crash + 'a" where
  "AssertQueueStateConsistent E m download k =
     deref m download (\<lambda>d.
       if state d = REMOVING then
         CHECK (download \<notin> set (downloads m))
        (CHECK (\<not> ContainsKey (active_downloads m) (download_id d))
        (CHECK (\<not> ContainsKey (in_progress m) (download_id d))
        (CHECK (\<not> ContainsKey (history_downloads m) (db_handle d))
          k)))
       else
         CHECK (download \<in> set (downloads m))
        (CHECK (if db_handle d \<noteq> kUninitializedHandle E
                then ContainsKey (history_downloads m) (db_handle d)
                else list_all (\<lambda>kv. snd kv \<noteq> download) (history_downloads m))
        (CHECK (ContainsKey (active_downloads m) (download_id d) = (state d = IN_PROGRESS))
        (CHECK (ContainsKey (in_progress m) (download_id d) = (state d = IN_PROGRESS))
          k))))"

text \<open>\<^verbatim>\<open>DownloadManager::IsDownloadReadyForCompletion\<close>, on the Record \<open>d\<close> the pointer holds.\<close>

definition IsDownloadReadyForCompletion ::
    "build_env \<Rightarrow> DownloadManager \<Rightarrow> DownloadItem \<Rightarrow> bool" where
  "IsDownloadReadyForCompletion E m d =
     (if \<not> all_data_saved d then False
      else if safety_state d = DANGEROUS then False
      else if \<not> ContainsKey (active_downloads m) (download_id d) then False
      else if db_handle d = kUninitializedHandle E then False
      else True)"

text \<open>\<^verbatim>\<open>DownloadManager::MaybeCompleteDownload\<close>.\<close>

definition MaybeCompleteDownload ::
    "build_env \<Rightarrow> DownloadManager \<Rightarrow> ptr \<Rightarrow> crash + DownloadManager" where
  "MaybeCompleteDownload E m download =
     deref m download (\<lambda>d.
       if \<not> IsDownloadReadyForCompletion E m d then Inr m
       else
         DCHECK E (DANGEROUS \<noteq> safety_state d)
        (DCHECK E (ContainsKey (in_progress m) (download_id d))
        (DCHECK E (all_data_saved d)
        (DCHECK E (db_handle d \<noteq> kUninitializedHandle E)
        (DCHECK E (ContainsKey (history_downloads m) (db_handle d))
        (and_then
           (history_call (HistoryUpdateEntry download)
              (UpdateAppIcon (m\<lparr>in_progress := map_erase (download_id d) (in_progress m)\<rparr>)))
           (item_OnDownloadCompleting download)))))))"

text \<open>\<^verbatim>\<open>DownloadManager::GetActiveDownloadItem\<close>: the read is \<^verbatim>\<open>active_downloads_[download_id]\<close>.\<close>

definition GetActiveDownloadItem ::
    "build_env \<Rightarrow> DownloadManager \<Rightarrow> int \<Rightarrow> crash + (ptr \<times> DownloadManager)" where
  "GetActiveDownloadItem E m did =
     DCHECK E (ContainsKey (active_downloads m) did)
       (case map_index (active_downloads m) did of
          (download, active') \<Rightarrow>
            DCHECK E (download \<noteq> NULL) (Inr (download, m\<lparr>active_downloads := active'\<rparr>)))"

text \<open>
  \<^verbatim>\<open>DownloadManager::GetDownloadItem\<close>: the first Record of the durable index with the id,
  or \<^verbatim>\<open>NULL\<close>.
\<close>

fun GetDownloadItem_scan :: "DownloadManager \<Rightarrow> DownloadMap \<Rightarrow> int \<Rightarrow> crash + ptr" where
  "GetDownloadItem_scan m [] did = Inr NULL"
| "GetDownloadItem_scan m ((h, item) # rest) did =
     (case items m item of
        None \<Rightarrow> Inl bad_pointer
      | Some d \<Rightarrow> if download_id d = did then Inr item else GetDownloadItem_scan m rest did)"

definition GetDownloadItem :: "DownloadManager \<Rightarrow> int \<Rightarrow> crash + ptr" where
  "GetDownloadItem m did = GetDownloadItem_scan m (history_downloads m) did"

text \<open>\<^verbatim>\<open>DownloadManager::DownloadCancelledInternal\<close>.\<close>

definition DownloadCancelledInternal :: "DownloadManager \<Rightarrow> int \<Rightarrow> DownloadManager" where
  "DownloadCancelledInternal m did =
     emit (PostFileTask (CancelDownload did)) (emit (CancelRequest did) m)"

text \<open>\<^verbatim>\<open>DownloadManager::DownloadCancelled\<close>.\<close>

definition DownloadCancelled :: "build_env \<Rightarrow> DownloadManager \<Rightarrow> int \<Rightarrow> crash + DownloadManager" where
  "DownloadCancelled E m did =
     (case map_find (in_progress m) did of
        None \<Rightarrow> Inr m
      | Some download \<Rightarrow>
          deref m download (\<lambda>d.
            and_then
              (if db_handle d \<noteq> kUninitializedHandle E then
                 history_call (HistoryUpdateEntry download)
                   (UpdateAppIcon
                      (m\<lparr>in_progress := map_erase did (in_progress m),
                         active_downloads := map_erase did (active_downloads m)\<rparr>))
               else Inr m)
              (\<lambda>m'. Inr (DownloadCancelledInternal m' did))))"

text \<open>\<^verbatim>\<open>DownloadManager::OnDownloadError\<close>.\<close>

definition OnDownloadError ::
    "build_env \<Rightarrow> DownloadManager \<Rightarrow> int \<Rightarrow> int \<Rightarrow> int \<Rightarrow> crash + DownloadManager" where
  "OnDownloadError E m did size' os_error =
     (case map_find (active_downloads m) did of
        None \<Rightarrow> Inr m
      | Some download \<Rightarrow>
          and_then (item_Interrupted download size' os_error m) (\<lambda>m1.
          deref m1 download (\<lambda>d.
            and_then
              (if db_handle d \<noteq> kUninitializedHandle E then
                 history_call (HistoryUpdateEntry download)
                   (UpdateAppIcon
                      (m1\<lparr>in_progress := map_erase did (in_progress m1),
                          active_downloads := map_erase did (active_downloads m1)\<rparr>))
               else Inr m1)
              (\<lambda>m2. Inr (emit (PostFileTask (CancelDownload did)) m2)))))"

text \<open>\<^verbatim>\<open>DownloadManager::RemoveDownload\<close>.\<close>

definition RemoveDownload :: "build_env \<Rightarrow> DownloadManager \<Rightarrow> int \<Rightarrow> crash + DownloadManager" where
  "RemoveDownload E m download_handle =
     (case map_find (history_downloads m) download_handle of
        None \<Rightarrow> Inr m
      | Some download \<Rightarrow>
          and_then (history_call (HistoryRemoveEntry download) m) (\<lambda>m1.
          DCHECK E (download \<in> set (downloads m1))
            (delete_item download
               (NotifyModelChanged
                  (m1\<lparr>history_downloads := map_erase download_handle (history_downloads m1),
                      downloads := set_erase download (downloads m1)\<rparr>)))))"

text \<open>
  Modelled from the spec: \<^verbatim>\<open>DownloadItem::Cancel\<close> and \<^verbatim>\<open>DownloadItem::Delete\<close>. Cancelling
  a partial Record makes it CANCELLED and, when asked to, tells the manager. Deleting
  removes the Record's file from disk, on the FILE thread, and asks the manager to remove
  the Record: the source's note in \<^verbatim>\<open>Shutdown\<close> says that \<^verbatim>\<open>Delete\<close> goes through
  \<^verbatim>\<open>DownloadManager::RemoveDownload\<close>, which "only removes and deletes it if it's known to
  the history service".
\<close>

definition item_Cancel ::
    "build_env \<Rightarrow> ptr \<Rightarrow> bool \<Rightarrow> DownloadManager \<Rightarrow> crash + DownloadManager" where
  "item_Cancel E p update_history m =
     deref m p (\<lambda>d.
       if \<not> IsPartialDownload d then Inr (emit (ItemCall p (Call_Cancel update_history)) m)
       else
         and_then (item_call p (Call_Cancel update_history) (\<lambda>d. d\<lparr>state := CANCELLED\<rparr>) m)
           (\<lambda>m'. if update_history then DownloadCancelled E m' (download_id d) else Inr m'))"

definition item_Delete ::
    "build_env \<Rightarrow> ptr \<Rightarrow> DeleteReason \<Rightarrow> DownloadManager \<Rightarrow> crash + DownloadManager" where
  "item_Delete E p reason m =
     deref m p (\<lambda>d.
       RemoveDownload E
         (emit (PostFileTask (DeleteDownloadedFile (full_path d)))
            (emit (ItemCall p (Call_Delete reason)) m))
         (db_handle d))"

text \<open>
  The loop of \<^verbatim>\<open>DownloadManager::Shutdown\<close> over \<^verbatim>\<open>downloads_\<close>. The list is the set as it
  was when the loop began. The iterator steps to the next element still in the set before
  the body runs, so a Record the called code erased earlier is not visited, and a next
  element erased by the body leaves the iterator invalid.
\<close>

definition Shutdown_body :: "build_env \<Rightarrow> ptr \<Rightarrow> DownloadManager \<Rightarrow> crash + DownloadManager" where
  "Shutdown_body E download m =
     deref m download (\<lambda>d.
       if safety_state d = DANGEROUS \<and> IsPartialDownload d then
         item_Delete E download DELETE_DUE_TO_BROWSER_SHUTDOWN m
       else if IsPartialDownload d then
         and_then (item_Cancel E download False m) (history_call (HistoryUpdateEntry download))
       else Inr m)"

fun Shutdown_loop :: "build_env \<Rightarrow> ptr list \<Rightarrow> DownloadManager \<Rightarrow> crash + DownloadManager" where
  "Shutdown_loop E [] m = Inr m"
| "Shutdown_loop E (download # rest) m =
     (if download \<notin> set (downloads m) then Shutdown_loop E rest m
      else
        (case Shutdown_body E download m of
           Inl e \<Rightarrow> Inl e
         | Inr m' \<Rightarrow>
             (case filter (\<lambda>q. q \<in> set (downloads m)) rest of
                [] \<Rightarrow> Inr m'
              | q # _ \<Rightarrow>
                  if q \<notin> set (downloads m') then Inl invalid_iterator
                  else Shutdown_loop E rest m')))"

text \<open>\<^verbatim>\<open>STLDeleteElements\<close>.\<close>

fun STLDeleteElements :: "ptr list \<Rightarrow> DownloadManager \<Rightarrow> crash + DownloadManager" where
  "STLDeleteElements [] m = Inr m"
| "STLDeleteElements (p # ps) m =
     (case delete_item p m of Inl e \<Rightarrow> Inl e | Inr m' \<Rightarrow> STLDeleteElements ps m')"

text \<open>\<^verbatim>\<open>DownloadManager::Shutdown\<close>.\<close>

definition Shutdown :: "build_env \<Rightarrow> DownloadManager \<Rightarrow> crash + DownloadManager" where
  "Shutdown E m =
     (if \<not> shutdown_needed m then Inr m
      else
        (let m1 = emit ManagerGoingDown (m\<lparr>shutdown_needed := False\<rparr>);
             m2 = (if file_manager m1 then emit (PostFileTask OnDownloadManagerShutdown) m1
                   else m1)
         in AssertContainersConsistent E m2
              (and_then (Shutdown_loop E (downloads m2) m2) (\<lambda>m3.
               and_then
                 (STLDeleteElements (downloads m3)
                    (m3\<lparr>downloads := [], in_progress := [], active_downloads := [],
                        history_downloads := [],
                        save_page_as_downloads :=
                          (if debug_build E then [] else save_page_as_downloads m3)\<rparr>))
                 (\<lambda>m4. Inr (m4\<lparr>file_manager := False, download_history := None,
                                download_prefs := None, shutdown_needed := False\<rparr>))))))"

text \<open>\<^verbatim>\<open>DownloadManager::Init\<close>. \<open>prefs\<close> is what \<^verbatim>\<open>profile->GetPrefs()\<close> holds; \<open>rdh\<close> says
  whether the process has a \<^verbatim>\<open>ResourceDispatcherHost\<close>.\<close>

definition Init ::
    "build_env \<Rightarrow> DownloadManager \<Rightarrow> Profile option \<Rightarrow> DownloadPrefs \<Rightarrow> bool
      \<Rightarrow> crash + DownloadManager" where
  "Init E m profile' prefs rdh =
     DCHECK E (profile' \<noteq> None)
    (DCHECK E (\<not> shutdown_needed m)
       (case profile' of
          None \<Rightarrow> Inl bad_pointer
        | Some pr \<Rightarrow>
            Inr ((emit HistoryLoad
                   (m\<lparr>shutdown_needed := True, profile := profile',
                      download_history := Some \<lparr>fake_handles_issued = 0\<rparr>\<rparr>))
                 \<lparr>download_prefs := Some prefs,
                  file_manager := (if rdh then True else file_manager m)\<rparr>)))"

text \<open>\<^verbatim>\<open>DownloadManager::CheckDownloadUrlDone\<close>.\<close>

definition CheckDownloadUrlDone ::
    "build_env \<Rightarrow> DownloadManager \<Rightarrow> int \<Rightarrow> bool \<Rightarrow> crash + DownloadManager" where
  "CheckDownloadUrlDone E m did is_dangerous_url' =
     and_then (GetActiveDownloadItem E m did) (\<lambda>(download, m1).
       if download = NULL then Inr m1
       else
         and_then (if is_dangerous_url' then item_MarkUrlDangerous download m1 else Inr m1)
           (\<lambda>m2. deref m2 download (\<lambda>d.
              history_call (HistoryCheckVisitedReferrerBefore did (referrer_url d)) m2)))"

text \<open>\<^verbatim>\<open>DownloadManager::StartDownload\<close>.\<close>

definition StartDownload :: "build_env \<Rightarrow> DownloadManager \<Rightarrow> int \<Rightarrow> crash + DownloadManager" where
  "StartDownload E m did =
     and_then (GetActiveDownloadItem E m did) (\<lambda>(download, m1).
       if download = NULL then Inr m1
       else if ENABLE_SAFE_BROWSING E then
         deref m1 download (\<lambda>d.
           case profile m1 of
             None \<Rightarrow> Inl bad_pointer
           | Some pr \<Rightarrow> Inr (emit (CheckDownloadUrl did) m1))
       else CheckDownloadUrlDone E m1 did False)"

text \<open>
  \<^verbatim>\<open>DownloadManager::ShouldOpenFileBasedOnExtension\<close>, with \<open>prefs\<close> what \<^verbatim>\<open>download_prefs_\<close>
  points to.
\<close>

definition ShouldOpenFileBasedOnExtension ::
    "build_env \<Rightarrow> DownloadPrefs \<Rightarrow> FilePath \<Rightarrow> bool" where
  "ShouldOpenFileBasedOnExtension E prefs path =
     (let extension = Extension E path in
      if extension = [] then False
      else if Extension_IsExtension E path then False
      else IsAutoOpenEnabledForExtension prefs (tl extension))"

text \<open>\<^verbatim>\<open>DownloadManager::IsDangerousFile\<close>.\<close>

definition IsDangerousFile ::
    "build_env \<Rightarrow> DownloadManager \<Rightarrow> DownloadPrefs \<Rightarrow> DownloadItem \<Rightarrow> DownloadStateInfo
      \<Rightarrow> bool \<Rightarrow> crash + bool" where
  "IsDangerousFile E m prefs download st visited_referrer_before =
     (let auto_open = ShouldOpenFileBasedOnExtension E prefs (suggested_path st);
          danger_level = GetFileDangerLevel E (BaseName E (suggested_path st))
      in if danger_level = Dangerous then Inr (\<not> (auto_open \<and> has_user_gesture st))
         else if danger_level = AllowOnUserGesture
                 \<and> (\<not> has_user_gesture st \<or> \<not> visited_referrer_before) then Inr True
         else if is_extension_install st then
           (case profile m of
              None \<Rightarrow> Inl bad_pointer
            | Some pr \<Rightarrow>
                if \<not> has_extension_service pr
                   \<or> \<not> IsDownloadFromGallery pr (url download) (referrer_url download)
                then Inr True else Inr False)
         else Inr False)"

text \<open>
  The first half of \<^verbatim>\<open>DownloadManager::CheckVisitedReferrerBeforeDone\<close>: the
  \<^verbatim>\<open>DownloadStateInfo\<close> after the extension-install, prompt and suggested-path decisions,
  before the dangerous-file decision.
\<close>

definition decide_path_state ::
    "build_env \<Rightarrow> DownloadPrefs \<Rightarrow> FilePath \<Rightarrow> DownloadItem \<Rightarrow> DownloadStateInfo" where
  "decide_path_state E prefs last_path download =
     (let st0 = state_info download;
          st1 = (if \<not> prompt_user_for_save_location st0 then
                   (if IsURLUserScript E (url download) (mime_type download)
                       \<or> mime_type download = Extension_kMimeType E
                    then st0\<lparr>is_extension_install := True\<rparr> else st0)
                 else st0)
      in if force_file_name st1 = [] then
           (let generated_name = GenerateFileNameFromRequest E download;
                st2 = (if PromptForDownload prefs then
                         (if \<not> is_extension_install st1
                             \<and> \<not> ShouldOpenFileBasedOnExtension E prefs generated_name
                          then st1\<lparr>prompt_user_for_save_location := True\<rparr> else st1)
                       else st1);
                st3 = (if IsDownloadPathManaged prefs
                       then st2\<lparr>prompt_user_for_save_location := False\<rparr> else st2);
                st4 = (if prompt_user_for_save_location st3 \<and> last_path \<noteq> []
                       then st3\<lparr>suggested_path := last_path\<rparr>
                       else st3\<lparr>suggested_path := download_path prefs\<rparr>)
            in st4\<lparr>suggested_path := Append E (suggested_path st4) generated_name\<rparr>)
         else st1\<lparr>suggested_path := force_file_name st1\<rparr>)"

text \<open>\<^verbatim>\<open>DownloadManager::CheckVisitedReferrerBeforeDone\<close>.\<close>

definition CheckVisitedReferrerBeforeDone ::
    "build_env \<Rightarrow> DownloadManager \<Rightarrow> int \<Rightarrow> bool \<Rightarrow> crash + DownloadManager" where
  "CheckVisitedReferrerBeforeDone E m did visited_referrer_before =
     and_then (GetActiveDownloadItem E m did) (\<lambda>(download, m1).
       if download = NULL then Inr m1
       else
         deref m1 download (\<lambda>d.
           case download_prefs m1 of
             None \<Rightarrow> Inl bad_pointer
           | Some prefs \<Rightarrow>
               (let st = decide_path_state E prefs (last_download_path m1) d
                in and_then
                     (if \<not> prompt_user_for_save_location st \<and> force_file_name st = [] then
                        and_then (IsDangerousFile E m1 prefs d st visited_referrer_before)
                          (\<lambda>b. Inr (st\<lparr>is_dangerous_file := b\<rparr>))
                      else Inr st)
                     (\<lambda>st'. Inr (emit (PostFileTask
                        (CheckIfSuggestedPathExists (download_id d) st' (download_path prefs)))
                        m1)))))"

text \<open>\<^verbatim>\<open>DownloadManager::CreateDownloadItem\<close>.\<close>

definition CreateDownloadItem ::
    "build_env \<Rightarrow> DownloadManager \<Rightarrow> DownloadCreateInfo \<Rightarrow> crash + DownloadManager" where
  "CreateDownloadItem E m info =
     (case profile m of
        None \<Rightarrow> Inl bad_pointer
      | Some pr \<Rightarrow>
          (case new_item (DownloadItem_new E info (IsOffTheRecord pr)) m of
             (download, m1) \<Rightarrow>
               DCHECK E (\<not> ContainsKey (in_progress m1) (ci_download_id info))
              (DCHECK E (\<not> ContainsKey (active_downloads m1) (ci_download_id info))
                 (Inr (m1\<lparr>downloads := set_insert download (downloads m1),
                          active_downloads :=
                            map_set (ci_download_id info) download (active_downloads m1)\<rparr>)))))"

text \<open>\<^verbatim>\<open>DownloadManager::ContinueDownloadWithPath\<close>.\<close>

definition ContinueDownloadWithPath ::
    "build_env \<Rightarrow> DownloadManager \<Rightarrow> ptr \<Rightarrow> FilePath \<Rightarrow> crash + DownloadManager" where
  "ContinueDownloadWithPath E m download chosen_file =
     DCHECK E (download \<noteq> NULL)
       (deref m download (\<lambda>d.
          DCHECK E (\<not> ContainsKey (in_progress m) (download_id d))
         (DCHECK E (download \<in> set (downloads m))
         (DCHECK E (ContainsKey (active_downloads m) (download_id d))
         (DCHECK E (full_path d = [])
         (and_then (item_OnPathDetermined download chosen_file m) (\<lambda>m1.
          deref m1 download (\<lambda>d1.
            (let m2 = UpdateAppIcon
                        (m1\<lparr>in_progress := map_set (download_id d) download (in_progress m1)\<rparr>);
                 download_path = (if IsDangerous d1 then full_path d1
                                  else GetCrDownloadPath E (full_path d1));
                 m3 = emit (PostFileTask
                        (RenameInProgressDownloadFile (download_id d1) download_path)) m2
             in and_then (item_Rename download download_path m3)
                  (history_call (HistoryAddEntry download)))))))))))"

text \<open>\<^verbatim>\<open>DownloadManager::OnPathExistenceAvailable\<close>.\<close>

definition OnPathExistenceAvailable ::
    "build_env \<Rightarrow> DownloadManager \<Rightarrow> int \<Rightarrow> DownloadStateInfo \<Rightarrow> crash + DownloadManager" where
  "OnPathExistenceAvailable E m did new_state =
     and_then (GetActiveDownloadItem E m did) (\<lambda>(download, m1).
       if download = NULL then Inr m1
       else
         and_then (item_SetFileCheckResults download new_state m1) (\<lambda>m2.
         deref m2 download (\<lambda>d.
           if prompt_user_for_save_location (state_info d) then
             Inr (emit (SelectFileDialogDisplayed did)
                    (emit (ChooseDownloadPath did (suggested_path (state_info d))) m2))
           else ContinueDownloadWithPath E m2 download (suggested_path (state_info d)))))"

text \<open>\<^verbatim>\<open>DownloadManager::UpdateDownload\<close>.\<close>

definition UpdateDownload ::
    "build_env \<Rightarrow> DownloadManager \<Rightarrow> int \<Rightarrow> int \<Rightarrow> crash + DownloadManager" where
  "UpdateDownload E m did size' =
     (case map_find (active_downloads m) did of
        None \<Rightarrow> Inr m
      | Some download \<Rightarrow>
          deref m download (\<lambda>d.
            if IsInProgress d then
              and_then (item_Update download size' m)
                (\<lambda>m1. history_call (HistoryUpdateEntry download) (UpdateAppIcon m1))
            else Inr m))"

text \<open>\<^verbatim>\<open>DownloadManager::CheckDownloadHashDone\<close>: it only logs.\<close>

definition CheckDownloadHashDone ::
    "build_env \<Rightarrow> DownloadManager \<Rightarrow> int \<Rightarrow> bool \<Rightarrow> crash + DownloadManager" where
  "CheckDownloadHashDone E m did is_dangerous_hash =
     (if \<not> ContainsKey (active_downloads m) did then Inr m else Inr m)"

text \<open>\<^verbatim>\<open>DownloadManager::OnAllDataSaved\<close>.\<close>

definition OnAllDataSaved ::
    "build_env \<Rightarrow> DownloadManager \<Rightarrow> int \<Rightarrow> int \<Rightarrow> string \<Rightarrow> crash + DownloadManager" where
  "OnAllDataSaved E m did size' hash =
     (case map_find (active_downloads m) did of
        None \<Rightarrow> Inr m
      | Some download \<Rightarrow>
          and_then (item_OnAllDataSaved download size' m) (\<lambda>m1.
          and_then
            (if hash \<noteq> [] then
               (if ENABLE_SAFE_BROWSING E then
                  (case profile m1 of
                     None \<Rightarrow> Inl bad_pointer
                   | Some pr \<Rightarrow> Inr (emit (CheckDownloadHash did hash) m1))
                else CheckDownloadHashDone E m1 did False)
             else Inr m1)
            (\<lambda>m2. MaybeCompleteDownload E m2 download)))"

text \<open>\<^verbatim>\<open>DownloadManager::OnResponseCompleted\<close>.\<close>

definition OnResponseCompleted ::
    "build_env \<Rightarrow> DownloadManager \<Rightarrow> int \<Rightarrow> int \<Rightarrow> int \<Rightarrow> string \<Rightarrow> crash + DownloadManager" where
  "OnResponseCompleted E m did size' os_error hash =
     (if os_error = 0 \<or> os_error = ERR_CONNECTION_CLOSED E then OnAllDataSaved E m did size' hash
      else OnDownloadError E m did size' os_error)"

text \<open>\<^verbatim>\<open>DownloadManager::DownloadCompleted\<close>.\<close>

definition DownloadCompleted :: "build_env \<Rightarrow> DownloadManager \<Rightarrow> int \<Rightarrow> crash + DownloadManager" where
  "DownloadCompleted E m did =
     and_then (GetDownloadItem m did) (\<lambda>download.
       DCHECK E (download \<noteq> NULL)
         (and_then (history_call (HistoryUpdateEntry download) m)
            (\<lambda>m1. Inr (m1\<lparr>active_downloads := map_erase did (active_downloads m1)\<rparr>))))"

text \<open>
  \<^verbatim>\<open>base::Time\<close> is the integer it wraps; the null time is 0. \<^verbatim>\<open>static_cast<int>\<close> of a
  \<^verbatim>\<open>size_t\<close> keeps the low 32 bits, read as a signed number.
\<close>

definition is_null :: "int \<Rightarrow> bool" where
  "is_null t = (t = 0)"

definition static_cast_int :: "nat \<Rightarrow> int" where
  "static_cast_int n =
     (let k = int n mod 2 ^ 32 in if k < 2 ^ 31 then k else k - 2 ^ 32)"

text \<open>\<^verbatim>\<open>STLDeleteElements\<close> and \<^verbatim>\<open>STLDeleteContainerPointers\<close> delete the same way.\<close>

definition STLDeleteContainerPointers :: "ptr list \<Rightarrow> DownloadManager \<Rightarrow> crash + DownloadManager" where
  "STLDeleteContainerPointers = STLDeleteElements"

text \<open>The test of \<^verbatim>\<open>DownloadManager::RemoveDownloadsBetween\<close> on one Record.\<close>

definition in_removal_range :: "int \<Rightarrow> int \<Rightarrow> DownloadItem \<Rightarrow> bool" where
  "in_removal_range remove_begin remove_end d =
     (start_time d \<ge> remove_begin
      \<and> (is_null remove_end \<or> start_time d < remove_end)
      \<and> (IsComplete d \<or> IsCancelled d \<or> IsInterrupted d))"

text \<open>
  The scan of \<^verbatim>\<open>DownloadManager::RemoveDownloadsBetween\<close> over \<^verbatim>\<open>history_downloads_\<close>: the
  entries still to visit, the state, and \<^verbatim>\<open>pending_deletes\<close>.
\<close>

fun RemoveDownloadsBetween_scan ::
    "build_env \<Rightarrow> int \<Rightarrow> int \<Rightarrow> DownloadMap \<Rightarrow> DownloadManager \<Rightarrow> ptr list
      \<Rightarrow> crash + (DownloadManager \<times> ptr list)" where
  "RemoveDownloadsBetween_scan E remove_begin remove_end [] m pending_deletes =
     Inr (m, pending_deletes)"
| "RemoveDownloadsBetween_scan E remove_begin remove_end ((h, download) # rest) m pending_deletes =
     (case items m download of
        None \<Rightarrow> Inl bad_pointer
      | Some d \<Rightarrow>
          if in_removal_range remove_begin remove_end d then
            AssertQueueStateConsistent E m download
              (RemoveDownloadsBetween_scan E remove_begin remove_end rest
                 (m\<lparr>history_downloads := map_erase h (history_downloads m)\<rparr>)
                 (pending_deletes @ [download]))
          else RemoveDownloadsBetween_scan E remove_begin remove_end rest m pending_deletes)"

text \<open>\<^verbatim>\<open>DownloadManager::RemoveDownloadsBetween\<close>: the state it leaves and the number it returns.\<close>

definition RemoveDownloadsBetween ::
    "build_env \<Rightarrow> DownloadManager \<Rightarrow> int \<Rightarrow> int \<Rightarrow> crash + (DownloadManager \<times> int)" where
  "RemoveDownloadsBetween E m remove_begin remove_end =
     and_then (history_call (HistoryRemoveEntriesBetween remove_begin remove_end) m) (\<lambda>m1.
     and_then (RemoveDownloadsBetween_scan E remove_begin remove_end (history_downloads m1) m1 [])
       (\<lambda>(m2, pending_deletes).
          if pending_deletes = [] then Inr (m2, 0)
          else
            and_then
              (STLDeleteContainerPointers pending_deletes
                 (NotifyModelChanged
                    (m2\<lparr>downloads := fold set_erase pending_deletes (downloads m2)\<rparr>)))
              (\<lambda>m3. Inr (m3, static_cast_int (length pending_deletes)))))"

text \<open>\<^verbatim>\<open>DownloadManager::RemoveDownloads\<close>.\<close>

definition RemoveDownloads ::
    "build_env \<Rightarrow> DownloadManager \<Rightarrow> int \<Rightarrow> crash + (DownloadManager \<times> int)" where
  "RemoveDownloads E m remove_begin = RemoveDownloadsBetween E m remove_begin 0"

text \<open>\<^verbatim>\<open>DownloadManager::AddDownloadItemToHistory\<close>.\<close>

definition AddDownloadItemToHistory ::
    "build_env \<Rightarrow> DownloadManager \<Rightarrow> ptr \<Rightarrow> int \<Rightarrow> crash + DownloadManager" where
  "AddDownloadItemToHistory E m download db_handle' =
     and_then
       (if db_handle' = kUninitializedHandle E then
          (case download_history m of
             None \<Rightarrow> Inl bad_pointer
           | Some h \<Rightarrow>
               Inr (FakeDbHandle E (fake_handles_issued h),
                    m\<lparr>download_history :=
                        Some (h\<lparr>fake_handles_issued := Suc (fake_handles_issued h)\<rparr>)\<rparr>))
        else Inr (db_handle', m))
       (\<lambda>(handle, m1).
          CHECK (kUninitializedHandle E \<noteq> handle)
            (deref m1 download (\<lambda>d.
               DCHECK E (db_handle d = kUninitializedHandle E)
                 (and_then (item_set_db_handle download handle m1) (\<lambda>m2.
                  deref m2 download (\<lambda>d2.
                    DCHECK E (\<not> ContainsKey (history_downloads m2) (db_handle d2))
                      (Inr (m2\<lparr>history_downloads :=
                                 map_set (db_handle d2) download (history_downloads m2)\<rparr>))))))))"


text \<open>\<^verbatim>\<open>DownloadManager::FileSelected\<close>; \<open>did\<close> is the id behind \<^verbatim>\<open>params\<close>.\<close>

definition FileSelected ::
    "build_env \<Rightarrow> DownloadManager \<Rightarrow> FilePath \<Rightarrow> int \<Rightarrow> crash + DownloadManager" where
  "FileSelected E m path did =
     and_then (GetActiveDownloadItem E m did) (\<lambda>(download, m1).
       if download = NULL then Inr m1
       else
         deref m1 download (\<lambda>d.
           ContinueDownloadWithPath E
             (if prompt_user_for_save_location (state_info d)
              then m1\<lparr>last_download_path := DirName E path\<rparr> else m1)
             download path))"

text \<open>\<^verbatim>\<open>DownloadManager::FileSelectionCanceled\<close>.\<close>

definition FileSelectionCanceled ::
    "build_env \<Rightarrow> DownloadManager \<Rightarrow> int \<Rightarrow> crash + DownloadManager" where
  "FileSelectionCanceled E m did =
     and_then (GetActiveDownloadItem E m did) (\<lambda>(download, m1).
       if download = NULL then Inr m1
       else deref m1 download (\<lambda>d. Inr (DownloadCancelledInternal m1 did)))"

text \<open>
  \<^verbatim>\<open>DownloadManager::ShowDownloadInBrowser\<close>; \<open>content\<close> says whether a tab is there to show
  the download in.
\<close>

definition ShowDownloadInBrowser :: "DownloadManager \<Rightarrow> ptr \<Rightarrow> bool \<Rightarrow> DownloadManager" where
  "ShowDownloadInBrowser m download content =
     (if content then emit (OnStartDownload download) m else m)"

text \<open>\<^verbatim>\<open>DownloadManager::OnCreateDownloadEntryComplete\<close>.\<close>

definition OnCreateDownloadEntryComplete ::
    "build_env \<Rightarrow> DownloadManager \<Rightarrow> int \<Rightarrow> int \<Rightarrow> bool \<Rightarrow> crash + DownloadManager" where
  "OnCreateDownloadEntryComplete E m did db_handle' content =
     and_then (GetActiveDownloadItem E m did) (\<lambda>(download, m1).
       if download = NULL then Inr m1
       else
         and_then (AddDownloadItemToHistory E m1 download db_handle') (\<lambda>m2.
         (let m3 = NotifyModelChanged (ShowDownloadInBrowser m2 download content)
          in deref m3 download (\<lambda>d.
               if IsInProgress d then MaybeCompleteDownload E m3 download
               else
                 DCHECK E (IsCancelled d)
                   (and_then
                      (history_call (HistoryUpdateEntry download)
                         (m3\<lparr>in_progress := map_erase did (in_progress m3),
                             active_downloads := map_erase did (active_downloads m3)\<rparr>))
                      (item_UpdateObservers download))))))"






subsection \<open>Example states\<close>

text \<open>A build without \<^verbatim>\<open>DCHECK\<close>s and one with them, with simple choices for the helpers.\<close>

definition env_release :: build_env where
  "env_release =
     \<lparr>debug_build = False, ENABLE_SAFE_BROWSING = False, kUninitializedHandle = 0,
      FakeDbHandle = (\<lambda>n. - 1 - int n), ERR_CONNECTION_CLOSED = - 100,
      GetCrDownloadPath = (\<lambda>p. p @ ''.crdownload''), DirName = (\<lambda>p. ''/home''),
      Append = (\<lambda>dir name. dir @ ''/'' @ name), Extension = (\<lambda>p. ''.pdf''),
      Extension_IsExtension = (\<lambda>p. False), IsURLUserScript = (\<lambda>u mt. False),
      Extension_kMimeType = ''application/x-chrome-extension'',
      GenerateFileNameFromRequest = (\<lambda>d. ''report.pdf''),
      GetFileDangerLevel = (\<lambda>p. NotDangerous), BaseName = (\<lambda>p. p),
      GetTargetFilePath = full_path, replayed_id = - 1\<rparr>"

definition env_debug :: build_env where
  "env_debug = env_release\<lparr>debug_build := True\<rparr>"

definition prefs0 :: DownloadPrefs where
  "prefs0 = \<lparr>PromptForDownload = True, IsDownloadPathManaged = False,
     download_path = ''/downloads'', IsAutoOpenEnabledForExtension = (\<lambda>e. False)\<rparr>"

definition profile0 :: Profile where
  "profile0 = \<lparr>IsOffTheRecord = False, has_extension_service = False,
     IsDownloadFromGallery = (\<lambda>u r. False)\<rparr>"

definition state_info0 :: DownloadStateInfo where
  "state_info0 = \<lparr>target_name = [], path_uniquifier = 0, has_user_gesture = False,
     prompt_user_for_save_location = False, is_dangerous_file = False,
     is_dangerous_url = False, is_extension_install = False, force_file_name = [],
     suggested_path = []\<rparr>"

text \<open>A manager that was never initialised, and one after \<^verbatim>\<open>Init\<close>.\<close>

definition manager_new :: DownloadManager where
  "manager_new =
     \<lparr>shutdown_needed = False, profile = None, file_manager = False,
      status_updater = False, download_history = None, download_prefs = None,
      last_download_path = [], downloads = [], history_downloads = [], in_progress = [],
      active_downloads = [], save_page_as_downloads = [], items = (\<lambda>p. None),
      next_item = 1, effects = []\<rparr>"

definition manager_up :: DownloadManager where
  "manager_up =
     manager_new\<lparr>shutdown_needed := True, profile := Some profile0,
       download_history := Some \<lparr>fake_handles_issued = 0\<rparr>,
       download_prefs := Some prefs0, effects := [HistoryLoad]\<rparr>"

text \<open>
  A Record in progress, id 7, all of its bytes saved, safe; \<open>item_durable\<close> has the durable
  handle 3, \<open>item_fresh\<close> has none yet.
\<close>

definition item_fresh :: DownloadItem where
  "item_fresh =
     \<lparr>download_id = 7, db_handle = 0, state = IN_PROGRESS, safety_state = SAFE,
      all_data_saved = True, full_path = ''/downloads/a.crdownload'', start_time = 100,
      received_bytes = 1000, total_bytes = 1000, last_os_error = 0,
      state_info = state_info0, file_externally_removed = False, is_temporary = False,
      is_otr = False, mime_type = ''text/plain'', url = ''http://a/'',
      referrer_url = ''http://b/''\<rparr>"

definition item_durable :: DownloadItem where
  "item_durable = item_fresh\<lparr>db_handle := 3\<rparr>"

text \<open>
  \<open>manager_fresh\<close>: the Record without a handle, in the master collection, the active and
  the in-progress index. \<open>manager_durable\<close>: the Record with its handle, in the durable
  index as well.
\<close>

definition manager_fresh :: DownloadManager where
  "manager_fresh =
     manager_up\<lparr>downloads := [1], in_progress := [(7, 1)], active_downloads := [(7, 1)],
       items := (\<lambda>p. None)(1 \<mapsto> item_fresh), next_item := 2\<rparr>"

definition manager_durable :: DownloadManager where
  "manager_durable =
     manager_up\<lparr>downloads := [1], history_downloads := [(3, 1)], in_progress := [(7, 1)],
       active_downloads := [(7, 1)], items := (\<lambda>p. None)(1 \<mapsto> item_durable),
       next_item := 2\<rparr>"

definition info0 :: DownloadCreateInfo where
  "info0 = \<lparr>ci_download_id = 9, ci_url = ''http://a/'', ci_referrer_url = ''http://b/'',
     ci_mime_type = ''text/plain'', ci_total_bytes = 1000, ci_start_time = 100,
     ci_state_info = state_info0\<rparr>"

text \<open>The manager \<open>manager_up\<close> after \<^verbatim>\<open>Shutdown\<close>.\<close>

definition manager_down :: DownloadManager where
  "manager_down = manager_new\<lparr>profile := Some profile0, effects := [HistoryLoad, ManagerGoingDown]\<rparr>"

text \<open>
  A manager whose journal replayed five completed downloads, with handles 1 to 5 and
  start times 10 to 50.
\<close>

definition entry0 :: "int \<Rightarrow> int \<Rightarrow> DownloadHistoryInfo" where
  "entry0 h t =
     \<lparr>hi_db_handle = h, hi_url = ''http://a/'', hi_referrer_url = [], hi_start_time = t,
      hi_received_bytes = 1000, hi_total_bytes = 1000, hi_path = ''/downloads/f'',
      hi_state = COMPLETE\<rparr>"

definition manager_replayed :: DownloadManager where
  "manager_replayed =
     manager_up\<lparr>downloads := [1, 2, 3, 4, 5],
       history_downloads := [(1, 1), (2, 2), (3, 3), (4, 4), (5, 5)],
       items := (\<lambda>p. if 1 \<le> p \<and> p \<le> 5
                      then Some (DownloadItem_from_history env_release
                                   (entry0 (int p) (10 * int p)))
                      else None),
       next_item := 6\<rparr>"




subsection \<open>States the properties speak of\<close>

text \<open>The state \<^verbatim>\<open>MaybeCompleteDownload\<close> leaves when it completes the Record at \<open>download\<close>.\<close>

definition completed :: "DownloadManager \<Rightarrow> ptr \<Rightarrow> DownloadItem \<Rightarrow> DownloadManager" where
  "completed m download d =
     emit (ItemCall download Call_OnDownloadCompleting)
       (set_item download d
          (emit (HistoryUpdateEntry download)
             (UpdateAppIcon (m\<lparr>in_progress := map_erase (download_id d) (in_progress m)\<rparr>))))"


text \<open>
  \<^verbatim>\<open>RemoveDownloadsBetween\<close> purges the entry \<open>kv\<close> of the durable index: its Record's start
  time is in the range and its life state is COMPLETE, CANCELLED or INTERRUPTED.
\<close>

definition purged :: "DownloadManager \<Rightarrow> int \<Rightarrow> int \<Rightarrow> int \<times> ptr \<Rightarrow> bool" where
  "purged m remove_begin remove_end kv =
     (case items m (snd kv) of
        None \<Rightarrow> False
      | Some d \<Rightarrow> in_removal_range remove_begin remove_end d)"

text \<open>
  The state in which \<^verbatim>\<open>RemoveDownloadsBetween\<close> passes its checks: the journal adapter is
  there; the handles of the durable index are distinct, and so are its Records; every
  entry's Record is live, is in the master collection and carries the entry's handle,
  which is not the sentinel; and a Record that is not IN_PROGRESS has its id in neither
  the active nor the in-progress index.
\<close>

definition removal_ready :: "build_env \<Rightarrow> DownloadManager \<Rightarrow> bool" where
  "removal_ready E m =
     (download_history m \<noteq> None
      \<and> distinct (map fst (history_downloads m))
      \<and> distinct (map snd (history_downloads m))
      \<and> list_all (\<lambda>kv.
           case items m (snd kv) of
             None \<Rightarrow> False
           | Some d \<Rightarrow>
               snd kv \<in> set (downloads m)
               \<and> db_handle d = fst kv
               \<and> fst kv \<noteq> kUninitializedHandle E
               \<and> (state d = IN_PROGRESS
                   \<or> (\<not> ContainsKey (active_downloads m) (download_id d)
                       \<and> \<not> ContainsKey (in_progress m) (download_id d))))
           (history_downloads m))"





section \<open>Properties\<close>

lemma effects_emit: "effects (emit e m) = effects m @ [e]"
  by (simp add: emit_def)

lemma effects_set_item: "effects (set_item p d m) = effects m"
  by (simp add: set_item_def)

lemma effects_UpdateAppIcon:
  "effects (UpdateAppIcon m) = effects m @ (if status_updater m then [StatusUpdate] else [])"
  by (simp add: UpdateAppIcon_def emit_def)

lemma items_emit: "items (emit e m) = items m"
  by (simp add: emit_def)

lemma items_UpdateAppIcon: "items (UpdateAppIcon m) = items m"
  by (simp add: UpdateAppIcon_def emit_def)

lemma completed_differs: "completed m download d \<noteq> m"
proof
  assume eq: "completed m download d = m"
  have "length (effects (completed m download d)) > length (effects m)"
    by (simp add: completed_def effects_emit effects_set_item effects_UpdateAppIcon)
  with eq show False by simp
qed

text \<open>
  C1. \<^verbatim>\<open>MaybeCompleteDownload\<close> on a Record completes it only if all of its bytes are saved,
  its safety state is not DANGEROUS, its id is in the active index and its durable handle
  is not the uninitialized sentinel. If one of the four conditions fails, the call
  returns the state before the call, unchanged. If all four hold, then whenever the call
  returns it leaves the completed state, which differs from the state before; and it
  does return when the journal adapter is there and the Record is in the in-progress and
  the durable index.
\<close>

theorem MaybeCompleteDownload_only_if_eligible:
  assumes "items m download = Some d"
  shows "(if all_data_saved d \<and> safety_state d \<noteq> DANGEROUS
             \<and> ContainsKey (active_downloads m) (download_id d)
             \<and> db_handle d \<noteq> kUninitializedHandle E
          then (\<forall>m'. MaybeCompleteDownload E m download = Inr m'
                  \<longrightarrow> m' = completed m download d \<and> m' \<noteq> m)
             \<and> (download_history m \<noteq> None
                  \<and> ContainsKey (in_progress m) (download_id d)
                  \<and> ContainsKey (history_downloads m) (db_handle d)
                \<longrightarrow> MaybeCompleteDownload E m download = Inr (completed m download d))
          else MaybeCompleteDownload E m download = Inr m)"
proof (cases "IsDownloadReadyForCompletion E m d")
  case False
  with assms show ?thesis
    by (auto simp: MaybeCompleteDownload_def deref_def IsDownloadReadyForCompletion_def
        split: if_splits)
next
  case True
  then have four: "all_data_saved d \<and> safety_state d \<noteq> DANGEROUS
      \<and> ContainsKey (active_downloads m) (download_id d)
      \<and> db_handle d \<noteq> kUninitializedHandle E"
    by (auto simp: IsDownloadReadyForCompletion_def split: if_splits)
  have only: "m' = completed m download d \<and> m' \<noteq> m"
    if "MaybeCompleteDownload E m download = Inr m'" for m'
  proof -
    from that assms True have "m' = completed m download d"
      by (auto simp: MaybeCompleteDownload_def deref_def DCHECK_def and_then_def
          history_call_def completed_def item_OnDownloadCompleting_def item_call_def
          items_emit items_UpdateAppIcon
          split: if_splits option.splits sum.splits)
    with completed_differs show ?thesis by simp
  qed
  have runs: "MaybeCompleteDownload E m download = Inr (completed m download d)"
    if "download_history m \<noteq> None \<and> ContainsKey (in_progress m) (download_id d)
        \<and> ContainsKey (history_downloads m) (db_handle d)"
    using that assms True four
    by (auto simp: MaybeCompleteDownload_def deref_def DCHECK_def and_then_def
        history_call_def completed_def item_OnDownloadCompleting_def item_call_def
        emit_def set_item_def UpdateAppIcon_def)
  show ?thesis
    unfolding if_P [OF four] using only runs by blast
qed

text \<open>The example states, unfolded.\<close>

lemmas ex_defs = env_release_def env_debug_def prefs0_def profile0_def state_info0_def
  manager_new_def manager_up_def item_fresh_def item_durable_def manager_fresh_def
  manager_durable_def info0_def

theorem MaybeCompleteDownload_only_if_eligible_witness:
  "MaybeCompleteDownload env_debug manager_durable 1
     = Inr (completed manager_durable 1 item_durable)
   \<and> completed manager_durable 1 item_durable \<noteq> manager_durable
   \<and> MaybeCompleteDownload env_debug manager_fresh 1 = Inr manager_fresh"
proof -
  have i1: "items manager_durable 1 = Some item_durable"
    by (simp add: ex_defs)
  have c1: "all_data_saved item_durable \<and> safety_state item_durable \<noteq> DANGEROUS
      \<and> ContainsKey (active_downloads manager_durable) (download_id item_durable)
      \<and> db_handle item_durable \<noteq> kUninitializedHandle env_debug"
    by (simp add: ex_defs ContainsKey_def)
  have s1: "download_history manager_durable \<noteq> None
      \<and> ContainsKey (in_progress manager_durable) (download_id item_durable)
      \<and> ContainsKey (history_downloads manager_durable) (db_handle item_durable)"
    by (simp add: ex_defs ContainsKey_def)
  note t1 = MaybeCompleteDownload_only_if_eligible [OF i1, of env_debug, unfolded if_P [OF c1]]
  from t1 [THEN conjunct2, rule_format, OF s1]
  have r1: "MaybeCompleteDownload env_debug manager_durable 1
      = Inr (completed manager_durable 1 item_durable)" .
  from t1 [THEN conjunct1, rule_format, OF r1]
  have n1: "completed manager_durable 1 item_durable \<noteq> manager_durable"
    by (rule conjunct2)
  have i2: "items manager_fresh 1 = Some item_fresh"
    by (simp add: ex_defs)
  have c2: "\<not> (all_data_saved item_fresh \<and> safety_state item_fresh \<noteq> DANGEROUS
      \<and> ContainsKey (active_downloads manager_fresh) (download_id item_fresh)
      \<and> db_handle item_fresh \<noteq> kUninitializedHandle env_debug)"
    by (simp add: ex_defs)
  from MaybeCompleteDownload_only_if_eligible [OF i2, of env_debug, unfolded if_not_P [OF c2]]
  have r2: "MaybeCompleteDownload env_debug manager_fresh 1 = Inr manager_fresh" .
  from r1 n1 r2 show ?thesis by (intro conjI)
qed



lemma active_emit: "active_downloads (emit e m) = active_downloads m"
  by (simp add: emit_def)

lemma in_progress_emit: "in_progress (emit e m) = in_progress m"
  by (simp add: emit_def)

lemma active_UpdateAppIcon: "active_downloads (UpdateAppIcon m) = active_downloads m"
  by (simp add: UpdateAppIcon_def emit_def)

lemma in_progress_UpdateAppIcon: "in_progress (UpdateAppIcon m) = in_progress m"
  by (simp add: UpdateAppIcon_def emit_def)

lemma download_history_UpdateAppIcon: "download_history (UpdateAppIcon m) = download_history m"
  by (simp add: UpdateAppIcon_def emit_def)






lemma set_set_insert: "set (set_insert p s) = insert p (set s)"
  by (induction s) auto

lemma map_of_map_set: "map_of (map_set k v mp) = (map_of mp)(k \<mapsto> v)"
  by (induction mp) (auto simp: fun_upd_twist)




text \<open>
  C4 (amended). \<^verbatim>\<open>CreateDownloadItem\<close> does not read the lifecycle flag. In every state with
  a profile, whatever the flag says, it returns with a new Record in the master
  collection and in the active index under the reported id (in a build with \<^verbatim>\<open>DCHECK\<close>s,
  provided that the id is in neither the in-progress nor the active index), and leaves
  the flag as it was.
\<close>

theorem CreateDownloadItem_ignores_shutdown_flag:
  assumes "profile m = Some pr"
    and "debug_build E \<longrightarrow> \<not> ContainsKey (in_progress m) (ci_download_id info)
           \<and> \<not> ContainsKey (active_downloads m) (ci_download_id info)"
  shows "\<exists>m'. CreateDownloadItem E m info = Inr m'
           \<and> downloads m' = set_insert (next_item m) (downloads m)
           \<and> active_downloads m' =
               map_set (ci_download_id info) (next_item m) (active_downloads m)
           \<and> next_item m \<in> set (downloads m')
           \<and> map_find (active_downloads m') (ci_download_id info) = Some (next_item m)
           \<and> items m' (next_item m) = Some (DownloadItem_new E info (IsOffTheRecord pr))
           \<and> shutdown_needed m' = shutdown_needed m"
  using assms
  by (auto simp: CreateDownloadItem_def new_item_def DCHECK_def set_set_insert
      map_of_map_set map_find_def)


theorem CreateDownloadItem_ignores_shutdown_flag_witness:
  "\<not> shutdown_needed manager_down
   \<and> (\<exists>m'. CreateDownloadItem env_debug manager_down info0 = Inr m'
          \<and> next_item manager_down \<in> set (downloads m')
          \<and> map_find (active_downloads m') 9 = Some (next_item manager_down))"
proof -
  have p: "profile manager_down = Some profile0"
    by (simp add: manager_down_def ex_defs)
  have c: "debug_build env_debug \<longrightarrow>
      \<not> ContainsKey (in_progress manager_down) (ci_download_id info0)
      \<and> \<not> ContainsKey (active_downloads manager_down) (ci_download_id info0)"
    by (simp add: manager_down_def ex_defs ContainsKey_def)
  have i: "ci_download_id info0 = 9" "\<not> shutdown_needed manager_down"
    by (simp_all add: manager_down_def ex_defs)
  show ?thesis
    using CreateDownloadItem_ignores_shutdown_flag [OF p c] i by auto
qed

theorem CreateDownloadItem_after_Shutdown_counterexample:
  "Shutdown env_debug manager_up = Inr manager_down
   \<and> \<not> shutdown_needed manager_down
   \<and> CreateDownloadItem env_debug manager_down info0
       = Inr (manager_down\<lparr>downloads := [1], active_downloads := [(9, 1)],
                items := (\<lambda>p. None)(1 \<mapsto> DownloadItem_new env_debug info0 False),
                next_item := 2\<rparr>)
   \<and> downloads manager_down = [] \<and> active_downloads manager_down = []"
  by (simp add: manager_down_def ex_defs Shutdown_def AssertContainersConsistent_def
      DCHECK_def and_then_def emit_def CreateDownloadItem_def new_item_def
      ContainsKey_def)

text \<open>
  \<^verbatim>\<open>GetActiveDownloadItem\<close> with an id that is not in the active index, in any state: a
  build with \<^verbatim>\<open>DCHECK\<close>s aborts, and a build without them returns \<^verbatim>\<open>NULL\<close> and leaves the id
  in the active index, with a null pointer.
\<close>

lemma GetActiveDownloadItem_absent:
  assumes "\<not> ContainsKey (active_downloads m) did"
  shows "GetActiveDownloadItem E m did =
     (if debug_build E then Inl DCHECK_failed
      else Inr (NULL, m\<lparr>active_downloads := map_set did NULL (active_downloads m)\<rparr>))"
  using assms
  by (simp add: GetActiveDownloadItem_def DCHECK_def map_index_def ContainsKey_def)

text \<open>
  C7. A callback that reaches its Record through \<^verbatim>\<open>GetActiveDownloadItem\<close> with an id
  that is not in the active index: in a build without \<^verbatim>\<open>DCHECK\<close>s the read
  \<^verbatim>\<open>active_downloads_[download_id]\<close> inserts the id with a null pointer before the
  callback returns, and in a build with them the callback aborts. \<^verbatim>\<open>OnAllDataSaved\<close>,
  which tests \<^verbatim>\<open>count\<close>, leaves the state as it was.
\<close>

theorem stale_callback_inserts_null_entry:
  "\<not> ContainsKey (active_downloads manager_up) 7
   \<and> FileSelectionCanceled env_release manager_up 7
       = Inr (manager_up\<lparr>active_downloads := [(7, NULL)]\<rparr>)
   \<and> CheckDownloadUrlDone env_release manager_up 7 False
       = Inr (manager_up\<lparr>active_downloads := [(7, NULL)]\<rparr>)
   \<and> FileSelected env_release manager_up ''/home/a.txt'' 7
       = Inr (manager_up\<lparr>active_downloads := [(7, NULL)]\<rparr>)
   \<and> OnCreateDownloadEntryComplete env_release manager_up 7 3 True
       = Inr (manager_up\<lparr>active_downloads := [(7, NULL)]\<rparr>)
   \<and> FileSelectionCanceled env_debug manager_up 7 = Inl DCHECK_failed
   \<and> OnAllDataSaved env_release manager_up 7 1000 [] = Inr manager_up"
  by (simp add: ex_defs FileSelectionCanceled_def CheckDownloadUrlDone_def FileSelected_def
      OnCreateDownloadEntryComplete_def OnAllDataSaved_def GetActiveDownloadItem_def
      map_index_def map_find_def DCHECK_def and_then_def ContainsKey_def)

lemma GetActiveDownloadItem_present:
  assumes "map_find (active_downloads m) did = Some download" and "download \<noteq> NULL"
  shows "GetActiveDownloadItem E m did = Inr (download, m)"
  using assms
  by (simp add: GetActiveDownloadItem_def map_index_def map_find_def DCHECK_def
      ContainsKey_def)

lemma prompt_decide_path_state:
  assumes "force_file_name (state_info d) = []"
  shows "prompt_user_for_save_location (decide_path_state E prefs last_path d) =
     (if IsDownloadPathManaged prefs then False
      else if PromptForDownload prefs
            \<and> \<not> (is_extension_install (state_info d)
                   \<or> (\<not> prompt_user_for_save_location (state_info d)
                       \<and> (IsURLUserScript E (url d) (mime_type d)
                            \<or> mime_type d = Extension_kMimeType E)))
            \<and> \<not> ShouldOpenFileBasedOnExtension E prefs (GenerateFileNameFromRequest E d)
           then True
      else prompt_user_for_save_location (state_info d))"
  using assms by (auto simp: decide_path_state_def Let_def)

lemma force_decide_path_state:
  "force_file_name (decide_path_state E prefs last_path d) = force_file_name (state_info d)"
  by (auto simp: decide_path_state_def Let_def)

lemma IsDangerousFile_returns:
  assumes "profile m = Some pr"
  shows "\<exists>b. IsDangerousFile E m prefs d st v = Inr b"
  using assms by (auto simp: IsDangerousFile_def Let_def)

text \<open>
  C9. \<^verbatim>\<open>CheckVisitedReferrerBeforeDone\<close> on an active Record without a forced file name
  returns, having posted \<^verbatim>\<open>CheckIfSuggestedPathExists\<close> with a state whose prompt flag is:
  false when the download directory is managed by policy, whatever else holds; otherwise
  true when the preference asks for prompting and the download is neither an extension
  install nor of a file type set to open automatically; otherwise the flag the request
  came with (the preference is suppressed or absent). The download is an extension
  install when its state says so, or when it came without a prompt request and is a user
  script or has the extension MIME type.
\<close>

theorem prompt_decision:
  assumes "map_find (active_downloads m) did = Some download" and "download \<noteq> NULL"
    and "items m download = Some d"
    and "download_prefs m = Some prefs" and "profile m = Some pr"
    and "force_file_name (state_info d) = []"
  shows "\<exists>m' st. CheckVisitedReferrerBeforeDone E m did visited_referrer_before = Inr m'
       \<and> m' = emit (PostFileTask
                 (CheckIfSuggestedPathExists (download_id d) st (download_path prefs))) m
       \<and> prompt_user_for_save_location st =
           (if IsDownloadPathManaged prefs then False
            else if PromptForDownload prefs
                  \<and> \<not> (is_extension_install (state_info d)
                         \<or> (\<not> prompt_user_for_save_location (state_info d)
                             \<and> (IsURLUserScript E (url d) (mime_type d)
                                  \<or> mime_type d = Extension_kMimeType E)))
                  \<and> \<not> ShouldOpenFileBasedOnExtension E prefs
                         (GenerateFileNameFromRequest E d)
                 then True
            else prompt_user_for_save_location (state_info d))"
proof -
  let ?st = "decide_path_state E prefs (last_download_path m) d"
  obtain b where b: "IsDangerousFile E m prefs d ?st visited_referrer_before = Inr b"
    using IsDangerousFile_returns [OF assms(5)] by blast
  let ?st' = "if \<not> prompt_user_for_save_location ?st \<and> force_file_name ?st = []
              then ?st\<lparr>is_dangerous_file := b\<rparr> else ?st"
  have call: "CheckVisitedReferrerBeforeDone E m did visited_referrer_before
      = Inr (emit (PostFileTask
          (CheckIfSuggestedPathExists (download_id d) ?st' (download_path prefs))) m)"
    using assms(2,3,4) b
    by (simp add: CheckVisitedReferrerBeforeDone_def
        GetActiveDownloadItem_present [OF assms(1,2)] and_then_def deref_def Let_def)
  have "prompt_user_for_save_location ?st' = prompt_user_for_save_location ?st"
    by simp
  with call prompt_decide_path_state [OF assms(6)] show ?thesis
    by (intro exI [of _ "emit (PostFileTask
          (CheckIfSuggestedPathExists (download_id d) ?st' (download_path prefs))) m"]
        exI [of _ ?st']) simp
qed

theorem prompt_decision_witness:
  "\<exists>st. CheckVisitedReferrerBeforeDone env_debug manager_fresh 7 True
       = Inr (emit (PostFileTask (CheckIfSuggestedPathExists 7 st ''/downloads''))
                manager_fresh)
     \<and> prompt_user_for_save_location st"
proof -
  have a: "map_find (active_downloads manager_fresh) 7 = Some 1" "(1::nat) \<noteq> NULL"
      "items manager_fresh 1 = Some item_fresh"
      "download_prefs manager_fresh = Some prefs0"
      "profile manager_fresh = Some profile0"
      "force_file_name (state_info item_fresh) = []"
    by (simp_all add: ex_defs map_find_def NULL_def)
  have k: "download_id item_fresh = 7" "download_path prefs0 = ''/downloads''"
      "\<not> IsDownloadPathManaged prefs0" "PromptForDownload prefs0"
      "\<not> is_extension_install (state_info item_fresh)"
      "\<not> IsURLUserScript env_debug (url item_fresh) (mime_type item_fresh)"
      "mime_type item_fresh \<noteq> Extension_kMimeType env_debug"
      "\<not> ShouldOpenFileBasedOnExtension env_debug prefs0
           (GenerateFileNameFromRequest env_debug item_fresh)"
    by (simp_all add: ex_defs ShouldOpenFileBasedOnExtension_def)
  show ?thesis
    using prompt_decision [OF a, of env_debug True] k by auto
qed

lemma static_cast_int_small: "n < 2 ^ 31 \<Longrightarrow> static_cast_int n = int n"
  by (simp add: static_cast_int_def Let_def)

lemma fold_set_erase: "fold set_erase ps s = filter (\<lambda>q. q \<notin> set ps) s"
proof (induction ps arbitrary: s)
  case Nil
  then show ?case by simp
next
  case (Cons p ps)
  have "filter (\<lambda>q. q \<notin> set ps) (set_erase p s) = filter (\<lambda>q. q \<notin> set (p # ps)) s"
    by (induction s) (auto simp: set_erase_def)
  with Cons show ?case by simp
qed

text \<open>Deleting changes the heap only.\<close>

lemma delete_item_keeps:
  assumes "delete_item p m = Inr m'"
  shows "history_downloads m' = history_downloads m \<and> downloads m' = downloads m
       \<and> effects m' = effects m \<and> active_downloads m' = active_downloads m
       \<and> in_progress m' = in_progress m
       \<and> save_page_as_downloads m' = save_page_as_downloads m
       \<and> shutdown_needed m' = shutdown_needed m"
  using assms
  by (auto simp: delete_item_def deref_def split: if_splits option.splits)

lemma STLDeleteElements_keeps:
  assumes "STLDeleteElements ps m = Inr m'"
  shows "history_downloads m' = history_downloads m \<and> downloads m' = downloads m
       \<and> effects m' = effects m \<and> active_downloads m' = active_downloads m
       \<and> in_progress m' = in_progress m
       \<and> save_page_as_downloads m' = save_page_as_downloads m
       \<and> shutdown_needed m' = shutdown_needed m"
  using assms
proof (induction ps arbitrary: m)
  case Nil
  then show ?case by simp
next
  case (Cons p ps)
  from Cons.prems obtain m1 where d: "delete_item p m = Inr m1"
      and r: "STLDeleteElements ps m1 = Inr m'"
    by (auto split: sum.splits)
  from delete_item_keeps [OF d] Cons.IH [OF r] show ?case by simp
qed

lemma STLDeleteElements_returns:
  assumes "distinct ps" and "\<forall>p\<in>set ps. items m p \<noteq> None"
  shows "\<exists>m'. STLDeleteElements ps m = Inr m'"
  using assms
proof (induction ps arbitrary: m)
  case Nil
  then show ?case by simp
next
  case (Cons p ps)
  from Cons.prems obtain d where d: "items m p = Some d" by auto
  define m1 where "m1 = (if p = NULL then m else m\<lparr>items := (items m)(p := None)\<rparr>)"
  have del: "delete_item p m = Inr m1"
    using d by (simp add: delete_item_def deref_def m1_def)
  have "\<forall>q\<in>set ps. items m1 q \<noteq> None"
    using Cons.prems by (auto simp: m1_def)
  with Cons.IH [of m1] Cons.prems(1) obtain m' where "STLDeleteElements ps m1 = Inr m'"
    by auto
  with del show ?case by simp
qed

lemma AssertQueueStateConsistent_Inr:
  "AssertQueueStateConsistent E m p k = Inr x \<Longrightarrow> k = Inr x"
  by (auto simp: AssertQueueStateConsistent_def deref_def CHECK_def
      split: option.splits if_splits)

lemma purged_history_update [simp]:
  "purged (m\<lparr>history_downloads := H\<rparr>) b e = purged m b e"
  by (rule ext) (simp add: purged_def)

lemma filter_map_erase:
  "filter (\<lambda>kv. fst kv \<notin> S) (map_erase h H) = filter (\<lambda>kv. fst kv \<notin> insert h S) H"
  by (induction H) (auto simp: map_erase_def)

lemma RemoveDownloadsBetween_scan_result:
  assumes "RemoveDownloadsBetween_scan E b e rest mc pend = Inr (m2, pend2)"
  shows "m2 = mc\<lparr>history_downloads :=
                 filter (\<lambda>kv. fst kv \<notin> fst ` set (filter (purged mc b e) rest))
                   (history_downloads mc)\<rparr>
       \<and> pend2 = pend @ map snd (filter (purged mc b e) rest)"
  using assms
proof (induction rest arbitrary: mc pend)
  case Nil
  then show ?case by simp
next
  case (Cons kv rest)
  obtain h download where kv: "kv = (h, download)" by (cases kv)
  from Cons.prems kv obtain d where d: "items mc download = Some d"
    by (auto split: option.splits)
  show ?case
  proof (cases "in_removal_range b e d")
    case True
    let ?mc = "mc\<lparr>history_downloads := map_erase h (history_downloads mc)\<rparr>"
    from Cons.prems kv d True
    have "RemoveDownloadsBetween_scan E b e rest ?mc (pend @ [download]) = Inr (m2, pend2)"
      by (auto dest: AssertQueueStateConsistent_Inr)
    from Cons.IH [OF this] kv d True show ?thesis
      by (simp add: purged_def filter_map_erase)
  next
    case False
    with Cons.prems kv d
    have "RemoveDownloadsBetween_scan E b e rest mc pend = Inr (m2, pend2)"
      by simp
    from Cons.IH [OF this] kv d False show ?thesis
      by (simp add: purged_def)
  qed
qed

lemma ContainsKey_map_erase_other:
  "k \<noteq> h \<Longrightarrow> ContainsKey (map_erase h H) k = ContainsKey H k"
  by (induction H) (auto simp: ContainsKey_def map_erase_def)

text \<open>What the scan needs of an entry still to visit, in the state it has reached.\<close>

lemma RemoveDownloadsBetween_scan_returns:
  assumes "distinct (map fst rest)"
    and "\<forall>kv\<in>set rest. \<exists>d. items mc (snd kv) = Some d
           \<and> snd kv \<in> set (downloads mc) \<and> db_handle d = fst kv
           \<and> fst kv \<noteq> kUninitializedHandle E
           \<and> ContainsKey (history_downloads mc) (fst kv)
           \<and> (state d = IN_PROGRESS
               \<or> (\<not> ContainsKey (active_downloads mc) (download_id d)
                   \<and> \<not> ContainsKey (in_progress mc) (download_id d)))"
  shows "\<exists>r. RemoveDownloadsBetween_scan E b e rest mc pend = Inr r"
  using assms
proof (induction rest arbitrary: mc pend)
  case Nil
  then show ?case by simp
next
  case (Cons kv rest)
  obtain h download where kv: "kv = (h, download)" by (cases kv)
  from Cons.prems(2) kv obtain d where d: "items mc download = Some d"
      and ok: "download \<in> set (downloads mc)" "db_handle d = h"
        "h \<noteq> kUninitializedHandle E" "ContainsKey (history_downloads mc) h"
        "state d = IN_PROGRESS
          \<or> (\<not> ContainsKey (active_downloads mc) (download_id d)
              \<and> \<not> ContainsKey (in_progress mc) (download_id d))"
    by auto
  show ?case
  proof (cases "in_removal_range b e d")
    case True
    let ?mc = "mc\<lparr>history_downloads := map_erase h (history_downloads mc)\<rparr>"
    from True have st: "state d \<noteq> IN_PROGRESS" "state d \<noteq> REMOVING"
      by (auto simp: in_removal_range_def IsComplete_def IsCancelled_def IsInterrupted_def)
    have "\<forall>kv\<in>set rest. \<exists>d. items ?mc (snd kv) = Some d
           \<and> snd kv \<in> set (downloads ?mc) \<and> db_handle d = fst kv
           \<and> fst kv \<noteq> kUninitializedHandle E
           \<and> ContainsKey (history_downloads ?mc) (fst kv)
           \<and> (state d = IN_PROGRESS
               \<or> (\<not> ContainsKey (active_downloads ?mc) (download_id d)
                   \<and> \<not> ContainsKey (in_progress ?mc) (download_id d)))"
    proof
      fix kv' assume in_rest: "kv' \<in> set rest"
      with Cons.prems(1) kv have "fst kv' \<noteq> h" by force
      with Cons.prems(2) in_rest show "\<exists>d. items ?mc (snd kv') = Some d
           \<and> snd kv' \<in> set (downloads ?mc) \<and> db_handle d = fst kv'
           \<and> fst kv' \<noteq> kUninitializedHandle E
           \<and> ContainsKey (history_downloads ?mc) (fst kv')
           \<and> (state d = IN_PROGRESS
               \<or> (\<not> ContainsKey (active_downloads ?mc) (download_id d)
                   \<and> \<not> ContainsKey (in_progress ?mc) (download_id d)))"
        by (simp add: ContainsKey_map_erase_other)
    qed
    with Cons.IH [of ?mc "pend @ [download]"] Cons.prems(1)
    obtain r where "RemoveDownloadsBetween_scan E b e rest ?mc (pend @ [download]) = Inr r"
      by auto
    with kv d True st ok show ?thesis
      by (simp add: AssertQueueStateConsistent_def deref_def CHECK_def)
  next
    case False
    from Cons.IH [of mc pend] Cons.prems
    obtain r where "RemoveDownloadsBetween_scan E b e rest mc pend = Inr r"
      by auto
    with kv d False show ?thesis by simp
  qed
qed

lemma filter_keys_distinct:
  assumes "distinct (map fst H)"
  shows "filter (\<lambda>kv. fst kv \<notin> fst ` set (filter P H)) H = filter (\<lambda>kv. \<not> P kv) H"
proof (rule filter_cong [OF refl])
  fix kv assume kv: "kv \<in> set H"
  show "(fst kv \<notin> fst ` set (filter P H)) = (\<not> P kv)"
  proof
    assume "fst kv \<notin> fst ` set (filter P H)"
    with kv show "\<not> P kv" by force
  next
    assume np: "\<not> P kv"
    show "fst kv \<notin> fst ` set (filter P H)"
    proof
      assume "fst kv \<in> fst ` set (filter P H)"
      then obtain kv' where kv': "kv' \<in> set H" "P kv'" "fst kv' = fst kv" by auto
      from assms kv kv'(1,3) have "kv' = kv"
        by (metis eq_key_imp_eq_value prod.collapse)
      with kv'(2) np show False by simp
    qed
  qed
qed

lemma purged_emit [simp]: "purged (emit x m) b e = purged m b e"
  by (rule ext) (simp add: purged_def emit_def)

text \<open>
  C8. \<^verbatim>\<open>RemoveDownloadsBetween\<close> over a range, the null end time meaning no upper bound.
  Whenever it returns, it has erased from the durable index exactly the entries whose
  Record started in the range and is COMPLETE, CANCELLED or INTERRUPTED, and from the
  master collection exactly the Records of those entries; it returns their number (as
  \<^verbatim>\<open>static_cast<int>\<close> gives it, the number itself below \<open>2^31\<close>); and it has told the journal
  once and notified the observers once for the whole batch if an entry was purged, and
  not at all if none was. It returns in every state that passes its checks.
\<close>

theorem RemoveDownloadsBetween_purges_range:
  "(\<forall>m' n. RemoveDownloadsBetween E m remove_begin remove_end = Inr (m', n)
        \<longrightarrow> distinct (map fst (history_downloads m))
        \<longrightarrow> history_downloads m'
              = filter (\<lambda>kv. \<not> purged m remove_begin remove_end kv) (history_downloads m)
          \<and> downloads m'
              = filter (\<lambda>p. p \<notin> snd ` set (filter (purged m remove_begin remove_end)
                                              (history_downloads m))) (downloads m)
          \<and> n = static_cast_int
                  (length (filter (purged m remove_begin remove_end) (history_downloads m)))
          \<and> (length (filter (purged m remove_begin remove_end) (history_downloads m)) < 2 ^ 31
               \<longrightarrow> n = int (length (filter (purged m remove_begin remove_end)
                                       (history_downloads m))))
          \<and> effects m'
              = effects m @ [HistoryRemoveEntriesBetween remove_begin remove_end]
                  @ (if filter (purged m remove_begin remove_end) (history_downloads m) = []
                     then [] else [ModelChanged]))
   \<and> (removal_ready E m
        \<longrightarrow> (\<exists>m' n. RemoveDownloadsBetween E m remove_begin remove_end = Inr (m', n)))"
proof (intro conjI allI impI)
  let ?b = remove_begin and ?e = remove_end
  let ?P = "purged m ?b ?e"
  let ?H = "history_downloads m"
  let ?m1 = "emit (HistoryRemoveEntriesBetween ?b ?e) m"
  fix m' n
  assume call: "RemoveDownloadsBetween E m ?b ?e = Inr (m', n)"
    and dist: "distinct (map fst ?H)"
  from call obtain m2 pend where
      scan: "RemoveDownloadsBetween_scan E ?b ?e (history_downloads ?m1) ?m1 [] = Inr (m2, pend)"
    and rest: "(if pend = [] then Inr (m2, 0)
          else and_then
            (STLDeleteContainerPointers pend
               (NotifyModelChanged (m2\<lparr>downloads := fold set_erase pend (downloads m2)\<rparr>)))
            (\<lambda>m3. Inr (m3, static_cast_int (length pend)))) = Inr (m', n)"
    by (auto simp: RemoveDownloadsBetween_def and_then_def history_call_def
        split: option.splits sum.splits)
  have H1: "history_downloads ?m1 = ?H" by (simp add: emit_def)
  have "m2 = ?m1\<lparr>history_downloads := filter (\<lambda>kv. \<not> ?P kv) ?H\<rparr>
      \<and> pend = [] @ map snd (filter ?P ?H)"
    using RemoveDownloadsBetween_scan_result [OF scan]
    unfolding H1 purged_emit filter_keys_distinct [OF dist] .
  then have m2: "m2 = ?m1\<lparr>history_downloads := filter (\<lambda>kv. \<not> ?P kv) ?H\<rparr>"
    and pend: "pend = map snd (filter ?P ?H)"
    by simp_all
  have post: "history_downloads m' = filter (\<lambda>kv. \<not> ?P kv) ?H
      \<and> downloads m' = filter (\<lambda>p. p \<notin> snd ` set (filter ?P ?H)) (downloads m)
      \<and> n = static_cast_int (length (filter ?P ?H))
      \<and> effects m' = effects m @ [HistoryRemoveEntriesBetween ?b ?e]
            @ (if filter ?P ?H = [] then [] else [ModelChanged])"
  proof (cases "pend = []")
    case True
    with rest have "m' = m2" "n = 0" by simp_all
    moreover from True pend have e: "filter ?P ?H = []" by simp
    ultimately show ?thesis
      by (simp add: m2 emit_def static_cast_int_def)
  next
    case False
    let ?m2' = "NotifyModelChanged (m2\<lparr>downloads := fold set_erase pend (downloads m2)\<rparr>)"
    from False rest obtain m3 where del: "STLDeleteElements pend ?m2' = Inr m3"
      and res: "m' = m3" "n = static_cast_int (length pend)"
      by (auto simp: and_then_def STLDeleteContainerPointers_def split: sum.splits)
    from STLDeleteElements_keeps [OF del]
    have "history_downloads m3 = history_downloads ?m2'"
        "downloads m3 = downloads ?m2'" "effects m3 = effects ?m2'"
      by simp_all
    moreover from False pend have "filter ?P ?H \<noteq> []" by auto
    ultimately show ?thesis
      using res pend
      by (simp add: m2 NotifyModelChanged_def emit_def fold_set_erase)
  qed
  from post show "history_downloads m' = filter (\<lambda>kv. \<not> ?P kv) ?H" by simp
  from post show "downloads m' = filter (\<lambda>p. p \<notin> snd ` set (filter ?P ?H)) (downloads m)"
    by simp
  from post show "n = static_cast_int (length (filter ?P ?H))" by simp
  from post show "effects m' = effects m @ [HistoryRemoveEntriesBetween ?b ?e]
            @ (if filter ?P ?H = [] then [] else [ModelChanged])" by simp
  assume "length (filter ?P ?H) < 2 ^ 31"
  with post show "n = int (length (filter ?P ?H))"
    by (simp add: static_cast_int_small)
next
  let ?b = remove_begin and ?e = remove_end
  let ?P = "purged m ?b ?e"
  let ?H = "history_downloads m"
  let ?m1 = "emit (HistoryRemoveEntriesBetween ?b ?e) m"
  assume ready: "removal_ready E m"
  then obtain hist where hist: "download_history m = Some hist"
    by (auto simp: removal_ready_def)
  from ready have dk: "distinct (map fst ?H)" and dp: "distinct (map snd ?H)"
    by (auto simp: removal_ready_def)
  have entries: "\<forall>kv\<in>set (history_downloads ?m1). \<exists>d. items ?m1 (snd kv) = Some d
           \<and> snd kv \<in> set (downloads ?m1) \<and> db_handle d = fst kv
           \<and> fst kv \<noteq> kUninitializedHandle E
           \<and> ContainsKey (history_downloads ?m1) (fst kv)
           \<and> (state d = IN_PROGRESS
               \<or> (\<not> ContainsKey (active_downloads ?m1) (download_id d)
                   \<and> \<not> ContainsKey (in_progress ?m1) (download_id d)))"
  proof
    fix kv assume kv: "kv \<in> set (history_downloads ?m1)"
    then have inH: "kv \<in> set ?H" by (simp add: emit_def)
    with dk have "map_of ?H (fst kv) = Some (snd kv)" by simp
    then have ck: "ContainsKey ?H (fst kv)" by (simp add: ContainsKey_def)
    from ready inH have "case items m (snd kv) of None \<Rightarrow> False
        | Some d \<Rightarrow> snd kv \<in> set (downloads m) \<and> db_handle d = fst kv
            \<and> fst kv \<noteq> kUninitializedHandle E
            \<and> (state d = IN_PROGRESS
                \<or> (\<not> ContainsKey (active_downloads m) (download_id d)
                    \<and> \<not> ContainsKey (in_progress m) (download_id d)))"
      by (auto simp: removal_ready_def list_all_iff)
    with ck show "\<exists>d. items ?m1 (snd kv) = Some d
           \<and> snd kv \<in> set (downloads ?m1) \<and> db_handle d = fst kv
           \<and> fst kv \<noteq> kUninitializedHandle E
           \<and> ContainsKey (history_downloads ?m1) (fst kv)
           \<and> (state d = IN_PROGRESS
               \<or> (\<not> ContainsKey (active_downloads ?m1) (download_id d)
                   \<and> \<not> ContainsKey (in_progress ?m1) (download_id d)))"
      by (auto simp: emit_def split: option.splits)
  qed
  have dk1: "distinct (map fst (history_downloads ?m1))"
    using dk by (simp add: emit_def)
  from RemoveDownloadsBetween_scan_returns [OF dk1 entries, of ?b ?e "[]"]
  obtain m2 pend where
      scan: "RemoveDownloadsBetween_scan E ?b ?e (history_downloads ?m1) ?m1 [] = Inr (m2, pend)"
    by (cases, auto)
  from RemoveDownloadsBetween_scan_result [OF scan]
  have m2: "m2 = ?m1\<lparr>history_downloads :=
        filter (\<lambda>kv. fst kv \<notin> fst ` set (filter (purged ?m1 ?b ?e) (history_downloads ?m1)))
          (history_downloads ?m1)\<rparr>"
    and pend: "pend = map snd (filter (purged ?m1 ?b ?e) (history_downloads ?m1))"
    by simp_all
  let ?m2' = "NotifyModelChanged (m2\<lparr>downloads := fold set_erase pend (downloads m2)\<rparr>)"
  have "distinct pend"
    using dp by (simp add: pend emit_def distinct_map_filter)
  moreover have "\<forall>p\<in>set pend. items ?m2' p \<noteq> None"
    by (subst m2) (auto simp: pend purged_def NotifyModelChanged_def emit_def
        split: option.splits)
  ultimately obtain m3 where "STLDeleteElements pend ?m2' = Inr m3"
    using STLDeleteElements_returns by blast
  with scan hist show "\<exists>m' n. RemoveDownloadsBetween E m ?b ?e = Inr (m', n)"
    by (simp add: RemoveDownloadsBetween_def and_then_def history_call_def
        STLDeleteContainerPointers_def)
qed

theorem RemoveDownloadsBetween_purges_range_witness:
  "\<exists>m'. RemoveDownloadsBetween env_debug manager_replayed 20 50 = Inr (m', 3)
     \<and> history_downloads m' = [(1, 1), (5, 5)]
     \<and> downloads m' = [1, 5]
     \<and> effects m' = [HistoryLoad, HistoryRemoveEntriesBetween 20 50, ModelChanged]"
proof -
  have ready: "removal_ready env_debug manager_replayed"
    by (simp add: removal_ready_def manager_replayed_def ex_defs ContainsKey_def
        DownloadItem_from_history_def entry0_def)
  have dist: "distinct (map fst (history_downloads manager_replayed))"
    by (simp add: manager_replayed_def ex_defs)
  have f: "filter (purged manager_replayed 20 50) (history_downloads manager_replayed)
      = [(2, 2), (3, 3), (4, 4)]"
    by (simp add: purged_def manager_replayed_def ex_defs in_removal_range_def is_null_def
        IsComplete_def DownloadItem_from_history_def entry0_def)
  have g: "filter (\<lambda>kv. \<not> purged manager_replayed 20 50 kv)
        (history_downloads manager_replayed) = [(1, 1), (5, 5)]"
    by (simp add: purged_def manager_replayed_def ex_defs in_removal_range_def is_null_def
        IsComplete_def DownloadItem_from_history_def entry0_def)
  have k: "downloads manager_replayed = [1, 2, 3, 4, 5]"
      "effects manager_replayed = [HistoryLoad]"
    by (simp_all add: manager_replayed_def ex_defs)
  from RemoveDownloadsBetween_purges_range [of env_debug manager_replayed 20 50] ready
  obtain m' n where r: "RemoveDownloadsBetween env_debug manager_replayed 20 50 = Inr (m', n)"
    by blast
  with RemoveDownloadsBetween_purges_range [of env_debug manager_replayed 20 50] dist
  have "history_downloads m'
          = filter (\<lambda>kv. \<not> purged manager_replayed 20 50 kv)
              (history_downloads manager_replayed)
      \<and> downloads m'
          = filter (\<lambda>p. p \<notin> snd ` set (filter (purged manager_replayed 20 50)
                (history_downloads manager_replayed))) (downloads manager_replayed)
      \<and> n = static_cast_int (length (filter (purged manager_replayed 20 50)
                (history_downloads manager_replayed)))
      \<and> effects m' = effects manager_replayed @ [HistoryRemoveEntriesBetween 20 50]
            @ (if filter (purged manager_replayed 20 50)
                  (history_downloads manager_replayed) = [] then [] else [ModelChanged])"
    by blast
  then have "history_downloads m' = [(1, 1), (5, 5)] \<and> downloads m' = [1, 5] \<and> n = 3
      \<and> effects m' = [HistoryLoad, HistoryRemoveEntriesBetween 20 50, ModelChanged]"
    unfolding f g k by (simp add: static_cast_int_def)
  with r show ?thesis by blast
qed


lemma item_call_result:
  assumes "item_call p c f m = Inr m'"
  shows "\<exists>d. items m p = Some d \<and> m' = emit (ItemCall p c) (set_item p (f d) m)"
  using assms by (auto simp: item_call_def deref_def split: option.splits)










































end
